theory Spec2Isabelle
  imports Complex_Main
begin

section \<open>Python exceptions and numbers\<close>

text \<open>
  The exception classes that the modelled code can raise. Every \<^verbatim>\<open>raise\<close> of the
  source, and every failing dictionary or frame access, is a value \<open>Inl e\<close> of the sum
  type \<open>error + 'a\<close>. \<open>LibraryError\<close> stands for an exception raised inside one
  of the numerical libraries (scikit-learn, SciPy), which are parameters of the model.

  Floating-point numbers are modelled as real numbers: rounding error and overflow are
  not part of the model. Where Python or NumPy produce an infinity or a NaN (a division
  by zero, a logarithm of a non-positive number, the mean of an empty array), the branch
  the code takes afterwards is written out, since HOL's \<open>x / 0 = 0\<close> is not what the
  program computes.
\<close>

datatype error =
    ValueError string
  | KeyError string
  | ZeroDivisionError
  | IndexError
  | LibraryError string

datatype pyfloat = Finite real | Infinity

definition euclidean :: "real \<times> real \<Rightarrow> real \<times> real \<Rightarrow> real" where
  "euclidean p q = sqrt ((fst p - fst q)\<^sup>2 + (snd p - snd q)\<^sup>2)"

definition mean :: "real list \<Rightarrow> real" where
  \<comment> \<open>\<^verbatim>\<open>np.mean\<close> of a non-empty array; every caller guards the empty case.\<close>
  "mean xs = sum_list xs / real (length xs)"

definition round_half_even :: "real \<Rightarrow> int" where
  "round_half_even x =
     (let f = \<lfloor>x\<rfloor>; d = x - of_int f
      in if d < 1 / 2 then f else if 1 / 2 < d then f + 1
         else if even f then f else f + 1)"

definition py_round :: "real \<Rightarrow> nat \<Rightarrow> real" where
  \<comment> \<open>\<^verbatim>\<open>round(x, n)\<close>: to \<open>n\<close> decimal places, ties to even.\<close>
  "py_round x n = of_int (round_half_even (x * 10 ^ n)) / 10 ^ n"

definition quote :: "string \<Rightarrow> string" where
  "quote s = [CHR 0x27] @ s @ [CHR 0x27]"

fun join :: "string \<Rightarrow> string list \<Rightarrow> string" where
  "join sep [] = []"
| "join sep [s] = s"
| "join sep (s # t # ss) = s @ sep @ join sep (t # ss)"

definition repr_str_list :: "string list \<Rightarrow> string" where
  \<comment> \<open>Python's \<^verbatim>\<open>repr\<close> of a list of plain strings.\<close>
  "repr_str_list ss = ''['' @ join '', '' (map quote ss) @ '']''"

section \<open>The DMUR scorer (dmur\_calculator.py)\<close>

record DMURConfig =
  mxi_weight :: real
  balance_weight :: real
  density_weight :: real
  diversity_weight :: real
  max_distance_threshold :: real
  optimal_residential_ratio :: real
  urban_density_benchmark :: real

definition default_DMURConfig :: DMURConfig where
  "default_DMURConfig =
     \<lparr>mxi_weight = 4 / 10, balance_weight = 3 / 10, density_weight = 2 / 10,
      diversity_weight = 1 / 10, max_distance_threshold = 5 / 1000,
      optimal_residential_ratio = 25, urban_density_benchmark = 1000\<rparr>"

text \<open>
  A residential listing is one row of the listings frame. The frame carries its column
  names, because \<^verbatim>\<open>_filter_downtown_listings\<close> checks them before it reads a row.
  Only the \<^verbatim>\<open>DataFrame\<close> branch of \<^verbatim>\<open>_load_listings_data\<close> is modelled (it copies the
  frame); reading a CSV or JSON file is outside the model.
\<close>

record listing =
  lat :: real
  lon :: real
  bedrooms :: int
  area_sqm :: real
  price :: real

record listings_frame =
  df_columns :: "string list"
  df_rows :: "listing list"

text \<open>
  The downtown boundary is used through two operations of the geometry library only:
  the containment test of a point \<open>(lon, lat)\<close> and the area in square degrees.
\<close>

record boundary =
  contains :: "real \<times> real \<Rightarrow> bool"
  area :: real

record component_scores =
  mxi_score :: real
  balance_score :: real
  density_score :: real
  diversity_score :: real

record weights =
  weights_mxi :: real
  weights_balance :: real
  weights_density :: real
  weights_diversity :: real

record metrics =
  total_listings :: nat
  total_businesses :: nat
  avg_distance_to_business :: pyfloat
  residential_to_business_ratio :: real
  bedroom_distribution :: "(int \<times> nat) list"

record DMURResult =
  city :: string
  dmur_score :: real
  component_scores :: component_scores
  weights :: weights
  metrics :: metrics

definition load_listings_data :: "listings_frame \<Rightarrow> error + listings_frame" where
  "load_listings_data data = Inr data"

definition required_cols :: "string list" where
  "required_cols = [''lat'', ''lon'', ''bedrooms'', ''area_sqm'', ''price'']"

definition filter_downtown_listings :: "listings_frame \<Rightarrow> boundary \<Rightarrow> error + listing list" where
  "filter_downtown_listings listings_df downtown_boundary =
     (let missing_cols = filter (\<lambda>col. col \<notin> set (df_columns listings_df)) required_cols
      in if missing_cols \<noteq> []
         then Inl (ValueError (''Missing required columns: '' @ repr_str_list missing_cols))
         else Inr (filter (\<lambda>row. contains downtown_boundary (lon row, lat row))
                     (df_rows listings_df)))"

definition min_distances :: "listing list \<Rightarrow> (real \<times> real) list \<Rightarrow> real list" where
  \<comment> \<open>\<^verbatim>\<open>np.min(cdist(listing_coords, business_coords), axis=1)\<close>, for a non-empty
      business list; a business is its pair \<open>(lat, lon)\<close>.\<close>
  "min_distances listings businesses =
     map (\<lambda>l. Min (set (map (euclidean (lat l, lon l)) businesses))) listings"

definition calculate_mxi_score :: "DMURConfig \<Rightarrow> listing list \<Rightarrow> (real \<times> real) list \<Rightarrow> real" where
  "calculate_mxi_score config listings business_locations =
     (if length business_locations = 0 then 0
      else if listings = [] then 0
        \<comment> \<open>the mean of an empty array is NaN, and \<^verbatim>\<open>max(0, nan)\<close> is 0\<close>
      else
        let avg_distance = mean (min_distances listings business_locations)
        in if max_distance_threshold config = 0 then 0
           \<comment> \<open>NumPy's division by zero gives inf or NaN, and \<^verbatim>\<open>max(0, 1 - inf)\<close> and
               \<^verbatim>\<open>max(0, nan)\<close> are 0\<close>
           else max 0 (1 - avg_distance / max_distance_threshold config))"

definition calculate_balance_score ::
  "DMURConfig \<Rightarrow> listing list \<Rightarrow> (real \<times> real) list \<Rightarrow> error + real" where
  "calculate_balance_score config listings business_locations =
     (if length business_locations = 0 then Inr 0
      else
        let residential_count = length listings;
            business_count = length business_locations;
            actual_ratio = real residential_count / real business_count
        in if optimal_residential_ratio config = 0 then Inl ZeroDivisionError
           \<comment> \<open>a division of two Python floats\<close>
           else
             let q = actual_ratio / optimal_residential_ratio config
             in if q \<le> 0 then Inr 0
                \<comment> \<open>\<^verbatim>\<open>np.log10\<close> gives -inf at 0 and NaN below it; \<^verbatim>\<open>max\<close> then gives 0\<close>
                else Inr (max 0 (1 - \<bar>log 10 q\<bar>)))"

definition calculate_density_score :: "DMURConfig \<Rightarrow> listing list \<Rightarrow> boundary \<Rightarrow> real" where
  "calculate_density_score config listings downtown_boundary =
     (if listings = [] then 1
        \<comment> \<open>the mean latitude is NaN, no comparison with it holds, and
            \<^verbatim>\<open>min(1.0, nan)\<close> is 1.0\<close>
      else
        let area_deg2 = area downtown_boundary;
            lat_avg = mean (map lat listings);
            km_per_deg_lat = 111;
            km_per_deg_lon = 111 * cos (lat_avg * pi / 180);
            area_km2 = area_deg2 * km_per_deg_lat * km_per_deg_lon
        in if area_km2 \<le> 0 then 0
           else
             let units_per_km2 = real (length listings) / area_km2
             in if urban_density_benchmark config = 0 then 1
                \<comment> \<open>NumPy's division gives inf, and \<^verbatim>\<open>min(1.0, inf)\<close> is 1.0\<close>
                else min 1 (units_per_km2 / urban_density_benchmark config))"

definition value_counts :: "'a list \<Rightarrow> ('a \<times> nat) list" where
  \<comment> \<open>The distinct values with their numbers of occurrences. pandas orders them by
      count; the code uses the length, a sum over the counts and a dictionary of them,
      none of which depends on the order.\<close>
  "value_counts xs = map (\<lambda>v. (v, count_list xs v)) (remdups xs)"

definition shannon_index :: "nat \<Rightarrow> ('a \<times> nat) list \<Rightarrow> real" where
  "shannon_index n counts =
     (let proportions = map (\<lambda>(v, c). real c / real n) counts
      in - sum_list (map (\<lambda>p. p * ln p) proportions))"

definition calculate_diversity_score :: "listing list \<Rightarrow> real" where
  "calculate_diversity_score listings =
     (let bedroom_counts = value_counts (map bedrooms listings)
      in if length bedroom_counts \<le> 1 then 0
         else
           let max_diversity = ln 5
           in min 1 (shannon_index (length listings) bedroom_counts / max_diversity))"

definition calculate_avg_distance :: "listing list \<Rightarrow> (real \<times> real) list \<Rightarrow> pyfloat" where
  "calculate_avg_distance listings business_locations =
     (if length business_locations = 0 then Infinity
      else Finite (mean (min_distances listings business_locations)))"

definition config_weights :: "DMURConfig \<Rightarrow> weights" where
  "config_weights config =
     \<lparr>weights_mxi = mxi_weight config, weights_balance = balance_weight config,
      weights_density = density_weight config, weights_diversity = diversity_weight config\<rparr>"

definition empty_results :: "DMURConfig \<Rightarrow> string \<Rightarrow> DMURResult" where
  "empty_results config city_name =
     \<lparr>city = city_name, dmur_score = 0,
      component_scores =
        \<lparr>mxi_score = 0, balance_score = 0, density_score = 0, diversity_score = 0\<rparr>,
      weights = config_weights config,
      metrics =
        \<lparr>total_listings = 0, total_businesses = 0, avg_distance_to_business = Infinity,
         residential_to_business_ratio = 0, bedroom_distribution = []\<rparr>\<rparr>"

definition calculate_dmur ::
  "DMURConfig \<Rightarrow> listings_frame \<Rightarrow> boundary \<Rightarrow> (real \<times> real) list \<Rightarrow> string
     \<Rightarrow> error + DMURResult" where
  "calculate_dmur config listings_data downtown_boundary business_locations city_name =
     (case load_listings_data listings_data of
        Inl e \<Rightarrow> Inl e
      | Inr listings_df \<Rightarrow>
     (case filter_downtown_listings listings_df downtown_boundary of
        Inl e \<Rightarrow> Inl e
      | Inr downtown_listings \<Rightarrow>
          if length downtown_listings = 0 then Inr (empty_results config city_name)
          else
            let mxi = calculate_mxi_score config downtown_listings business_locations
            in (case calculate_balance_score config downtown_listings business_locations of
                  Inl e \<Rightarrow> Inl e
                | Inr balance \<Rightarrow>
                    let density = calculate_density_score config downtown_listings downtown_boundary;
                        diversity = calculate_diversity_score downtown_listings;
                        dmur = mxi_weight config * mxi + balance_weight config * balance
                             + density_weight config * density
                             + diversity_weight config * diversity
                    in Inr \<lparr>city = city_name, dmur_score = py_round dmur 3,
                            component_scores =
                              \<lparr>mxi_score = py_round mxi 3, balance_score = py_round balance 3,
                               density_score = py_round density 3,
                               diversity_score = py_round diversity 3\<rparr>,
                            weights = config_weights config,
                            metrics =
                              \<lparr>total_listings = length downtown_listings,
                               total_businesses = length business_locations,
                               avg_distance_to_business =
                                 calculate_avg_distance downtown_listings business_locations,
                               residential_to_business_ratio =
                                 real (length downtown_listings)
                                   / real (max (length business_locations) 1),
                               bedroom_distribution =
                                 value_counts (map bedrooms downtown_listings)\<rparr>\<rparr>)))"

subsection \<open>Concrete inputs for the scorer\<close>

text \<open>The listings, the rectangular boundary and the businesses of the test suite.\<close>

definition fixture_listings :: listings_frame where
  "fixture_listings =
     \<lparr>df_columns = [''lat'', ''lon'', ''bedrooms'', ''area_sqm'', ''price'', ''listing_type''],
      df_rows =
        [\<lparr>lat = 4005 / 100, lon = - 7395 / 100, bedrooms = 1, area_sqm = 50, price = 2000\<rparr>,
         \<lparr>lat = 40051 / 1000, lon = - 73951 / 1000, bedrooms = 2, area_sqm = 75, price = 3000\<rparr>,
         \<lparr>lat = 40052 / 1000, lon = - 73952 / 1000, bedrooms = 0, area_sqm = 35, price = 1500\<rparr>,
         \<lparr>lat = 40053 / 1000, lon = - 73953 / 1000, bedrooms = 3, area_sqm = 100,
          price = 500000\<rparr>]\<rparr>"

definition fixture_outside_listings :: listings_frame where
  "fixture_outside_listings =
     \<lparr>df_columns = [''lat'', ''lon'', ''bedrooms'', ''area_sqm'', ''price''],
      df_rows = [\<lparr>lat = 45, lon = - 75, bedrooms = 1, area_sqm = 50, price = 2000\<rparr>]\<rparr>"

definition fixture_boundary :: boundary where
  "fixture_boundary =
     \<lparr>contains = (\<lambda>(x, y). - 7396 / 100 < x \<and> x < - 7394 / 100
                          \<and> 40045 / 1000 < y \<and> y < 40055 / 1000),
      area = 2 / 10000\<rparr>"

definition fixture_businesses :: "(real \<times> real) list" where
  "fixture_businesses =
     [(4005 / 100, - 7395 / 100), (40051 / 1000, - 73951 / 1000),
      (40052 / 1000, - 73952 / 1000), (40053 / 1000, - 73953 / 1000),
      (40054 / 1000, - 73954 / 1000)]"

section \<open>The downtown analyzer (downtown\_analyzer.py)\<close>

definition and_then :: "error + 'a \<Rightarrow> ('a \<Rightarrow> error + 'b) \<Rightarrow> error + 'b" where
  \<comment> \<open>Sequencing of two steps: an exception of the first step propagates.\<close>
  "and_then m f = (case m of Inl e \<Rightarrow> Inl e | Inr x \<Rightarrow> f x)"

function str_nat :: "nat \<Rightarrow> string" where
  \<comment> \<open>The decimal digits of a number, as an f-string prints it.\<close>
  "str_nat n =
     (if n < 10 then [''0123456789'' ! n]
      else str_nat (n div 10) @ [''0123456789'' ! (n mod 10)])"
  by pat_completeness auto
termination
  by (relation "measure id") auto

definition exception_class :: "error \<Rightarrow> string" where
  \<comment> \<open>The name of the Python class of an exception\<close>
  "exception_class e =
     (case e of ValueError m \<Rightarrow> ''ValueError'' | KeyError k \<Rightarrow> ''KeyError''
      | ZeroDivisionError \<Rightarrow> ''ZeroDivisionError'' | IndexError \<Rightarrow> ''IndexError''
      | LibraryError m \<Rightarrow> m)"

record AnalysisConfig =
  density_threshold_percentile :: real
  bandwidth :: real
  grid_size :: real
  alpha :: real
  buffer_distance :: real
  commercial_only :: bool
  auto_focus :: bool
  focus_area :: "(real \<times> real \<times> real \<times> real) option"

definition default_AnalysisConfig :: AnalysisConfig where
  "default_AnalysisConfig =
     \<lparr>density_threshold_percentile = 90, bandwidth = 2 / 1000, grid_size = 2 / 1000,
      alpha = 2 / 100, buffer_distance = 3 / 1000, commercial_only = True,
      auto_focus = True, focus_area = None\<rparr>"

subsection \<open>Business records\<close>

text \<open>
  An input business record is a dictionary with the keys \<^verbatim>\<open>id\<close>, \<^verbatim>\<open>lat\<close>, \<^verbatim>\<open>lon\<close>,
  \<^verbatim>\<open>name\<close>, \<^verbatim>\<open>business_type\<close> and \<^verbatim>\<open>business_subtype\<close>. Each key can be absent
  (\<open>Missing\<close>), present with the value \<^verbatim>\<open>None\<close> (\<open>Null\<close>) or present with a value of
  the type that the data model gives it. Keys that the analyzer never reads are left out.
\<close>

datatype 'a field = Missing | Null | Val 'a

record business =
  b_id :: "int field"
  b_lat :: "real field"
  b_lon :: "real field"
  b_name :: "string field"
  b_business_type :: "string field"
  b_business_subtype :: "string field"

record business_data =
  data_city :: "string option"
  data_businesses :: "business list option"

text \<open>A row of the frame that \<^verbatim>\<open>_load_business_data\<close> builds; \<open>None\<close> is \<^verbatim>\<open>None\<close>.\<close>

record business_row =
  row_id :: "int option"
  row_lat :: real
  row_lon :: real
  row_name :: "string option"
  row_type :: "string option"
  row_subtype :: "string option"

definition get_default :: "'a field \<Rightarrow> 'a \<Rightarrow> 'a option" where
  \<comment> \<open>\<^verbatim>\<open>d.get(key, default)\<close>\<close>
  "get_default f d = (case f of Missing \<Rightarrow> Some d | Null \<Rightarrow> None | Val v \<Rightarrow> Some v)"

definition subscript :: "string \<Rightarrow> 'a field \<Rightarrow> error + 'a option" where
  \<comment> \<open>\<^verbatim>\<open>d[key]\<close>\<close>
  "subscript key f =
     (case f of Missing \<Rightarrow> Inl (KeyError key) | Null \<Rightarrow> Inr None | Val v \<Rightarrow> Inr (Some v))"

fun coordinate :: "real field \<Rightarrow> real option" where
  \<comment> \<open>\<open>Some x\<close> exactly when \<^verbatim>\<open>business.get(key)\<close> is truthy; \<open>x\<close> is then
      \<^verbatim>\<open>business[key]\<close>. An absent key, \<^verbatim>\<open>None\<close> and the number 0 are falsy.\<close>
  "coordinate (Val x) = (if x = 0 then None else Some x)"
| "coordinate Null = None"
| "coordinate Missing = None"

definition COMMERCIAL_TYPES :: "string list" where
  "COMMERCIAL_TYPES = [''shop'', ''amenity'', ''office'', ''tourism'', ''craft'', ''healthcare'']"

definition COMMERCIAL_AMENITIES :: "string list" where
  "COMMERCIAL_AMENITIES =
     [''restaurant'', ''cafe'', ''bar'', ''pub'', ''fast_food'', ''food_court'', ''ice_cream'',
      ''bank'', ''atm'', ''cinema'', ''theatre'', ''nightclub'', ''casino'', ''pharmacy'',
      ''clinic'', ''doctors'', ''dentist'', ''fuel'', ''car_wash'', ''car_rental'',
      ''post_office'', ''courier'', ''internet_cafe'', ''library'', ''coworking_space'']"

definition is_in :: "string option \<Rightarrow> string list \<Rightarrow> bool" where
  \<comment> \<open>\<^verbatim>\<open>v in collection\<close>; \<^verbatim>\<open>None\<close> is in none of the collections of strings.\<close>
  "is_in v xs = (case v of None \<Rightarrow> False | Some s \<Rightarrow> s \<in> set xs)"

definition is_commercial_business :: "business \<Rightarrow> bool" where
  "is_commercial_business b =
     (let btype = get_default (b_business_type b) [];
          subtype = get_default (b_business_subtype b) []
      in if \<not> is_in btype COMMERCIAL_TYPES then False
         else if btype = Some ''amenity'' \<and> \<not> is_in subtype COMMERCIAL_AMENITIES then False
         else if btype = Some ''building''
                 \<and> \<not> is_in subtype [''commercial'', ''retail'', ''office'', ''hotel''] then False
         else if btype = Some ''leisure''
                 \<and> \<not> is_in subtype [''fitness_centre'', ''sports_centre'', ''bowling_alley'']
              then False
         else True)"

definition make_row :: "business \<Rightarrow> real \<Rightarrow> real \<Rightarrow> error + business_row" where
  \<comment> \<open>The dictionary that the loop appends. Its entries are evaluated in the order
      \<^verbatim>\<open>id\<close>, \<^verbatim>\<open>lat\<close>, \<^verbatim>\<open>lon\<close>, \<^verbatim>\<open>name\<close>, \<^verbatim>\<open>business_type\<close>, \<^verbatim>\<open>business_subtype\<close>;
      \<^verbatim>\<open>lat\<close> and \<^verbatim>\<open>lon\<close> are present here, with the values \<open>la\<close> and \<open>lo\<close>.\<close>
  "make_row b la lo =
     and_then (subscript ''id'' (b_id b)) (\<lambda>i.
     and_then (subscript ''name'' (b_name b)) (\<lambda>n.
     and_then (subscript ''business_type'' (b_business_type b)) (\<lambda>t.
     and_then (subscript ''business_subtype'' (b_business_subtype b)) (\<lambda>s.
       Inr \<lparr>row_id = i, row_lat = la, row_lon = lo, row_name = n, row_type = t,
            row_subtype = s\<rparr>))))"

fun load_rows :: "AnalysisConfig \<Rightarrow> business list \<Rightarrow> error + business_row list" where
  \<comment> \<open>The \<^verbatim>\<open>for\<close> loop of \<^verbatim>\<open>_load_business_data\<close>.\<close>
  "load_rows config [] = Inr []"
| "load_rows config (b # bs) =
     (case (coordinate (b_lat b), coordinate (b_lon b)) of
        (Some la, Some lo) \<Rightarrow>
          if commercial_only config \<and> \<not> is_commercial_business b then load_rows config bs
          else and_then (make_row b la lo) (\<lambda>row.
               and_then (load_rows config bs) (\<lambda>rows. Inr (row # rows)))
      | _ \<Rightarrow> load_rows config bs)"

subsection \<open>Focus area\<close>

text \<open>
  The libraries that the analyzer calls are parameters of the model: DBSCAN clustering
  (one label per point, negative for noise), the kernel density estimate at a list of
  grid nodes, the Delaunay triangulation (triples of point indices), the convex hull
  (indices of its vertices), and the containment test and the area of a geometry.
  Each may raise. A geometry is the term that builds it.
\<close>

datatype geometry = Polygon "(real \<times> real) list" | UnaryUnion "geometry list"
  | Buffer geometry real

record libs =
  dbscan :: "real \<Rightarrow> nat \<Rightarrow> (real \<times> real) list \<Rightarrow> error + int list"
  kde_density :: "real \<Rightarrow> (real \<times> real) list \<Rightarrow> (real \<times> real) list \<Rightarrow> error + real list"
  delaunay :: "(real \<times> real) list \<Rightarrow> error + (nat \<times> nat \<times> nat) list"
  convex_hull :: "(real \<times> real) list \<Rightarrow> error + nat list"
  geom_contains :: "geometry \<Rightarrow> real \<times> real \<Rightarrow> bool"
  geom_area :: "geometry \<Rightarrow> real"

definition apply_focus_area ::
  "business_row list \<Rightarrow> real \<times> real \<times> real \<times> real \<Rightarrow> error + business_row list" where
  \<comment> \<open>A frame built from an empty list of rows has no columns, so \<^verbatim>\<open>df['lat']\<close> fails.\<close>
  "apply_focus_area df focus =
     (case focus of (min_lat, min_lon, max_lat, max_lon) \<Rightarrow>
        if df = [] then Inl (KeyError ''lat'')
        else Inr (filter (\<lambda>r. min_lat \<le> row_lat r \<and> row_lat r \<le> max_lat
                              \<and> min_lon \<le> row_lon r \<and> row_lon r \<le> max_lon) df))"

definition argmax :: "nat list \<Rightarrow> nat" where
  \<comment> \<open>\<^verbatim>\<open>np.argmax\<close>: the first index of the greatest element.\<close>
  "argmax xs = length (takeWhile (\<lambda>x. x \<noteq> Max (set xs)) xs)"

definition linspace :: "real \<Rightarrow> real \<Rightarrow> nat \<Rightarrow> real list" where
  \<comment> \<open>\<^verbatim>\<open>np.linspace(start, stop, num)\<close> for \<open>num\<close> at least 2: \<open>num\<close> points, both ends
      included.\<close>
  "linspace start stop num =
     map (\<lambda>i. start + real i * ((stop - start) / real (num - 1))) [0..<num]"

definition bin_index :: "real list \<Rightarrow> real \<Rightarrow> nat option" where
  \<comment> \<open>The bin of a value among increasing edges: bins are closed on the left and open on
      the right, but the last bin includes the last edge; a value outside the edges is in
      no bin.\<close>
  "bin_index edges x =
     (if x < hd edges \<or> last edges < x then None
      else if x = last edges then Some (length edges - 2)
      else Some (length (filter (\<lambda>e. e \<le> x) edges) - 1))"

definition histogram2d ::
  "real list \<Rightarrow> real list \<Rightarrow> real list \<Rightarrow> real list \<Rightarrow> nat list list" where
  \<comment> \<open>\<^verbatim>\<open>np.histogram2d(xs, ys, bins=[x_edges, y_edges])\<close>: one row per bin of the first
      axis, one column per bin of the second.\<close>
  "histogram2d xs ys x_edges y_edges =
     (let bins = map (\<lambda>(x, y). (bin_index x_edges x, bin_index y_edges y)) (zip xs ys)
      in map (\<lambda>i. map (\<lambda>j. count_list bins (Some i, Some j)) [0..<length y_edges - 1])
           [0..<length x_edges - 1])"

definition unravel_index :: "nat \<Rightarrow> nat \<times> nat \<Rightarrow> nat \<times> nat" where
  "unravel_index k shape = (k div snd shape, k mod snd shape)"

definition hist_shape :: "nat list list \<Rightarrow> nat \<times> nat" where
  \<comment> \<open>\<^verbatim>\<open>hist.shape\<close>, for a histogram with at least one row\<close>
  "hist_shape hist = (length hist, length (hd hist))"

definition peak_index :: "real list \<Rightarrow> real list \<Rightarrow> nat \<times> nat" where
  \<comment> \<open>\<^verbatim>\<open>peak_idx\<close> of the histogram fallback\<close>
  "peak_index lats lons =
     (let lat_bins = linspace (Min (set lats)) (Max (set lats)) 20;
          lon_bins = linspace (Min (set lons)) (Max (set lons)) 20;
          hist = histogram2d lats lons lat_bins lon_bins
      in unravel_index (argmax (concat hist)) (hist_shape hist))"

definition histogram_focus_area :: "real list \<Rightarrow> real list \<Rightarrow> real \<times> real \<times> real \<times> real" where
  \<comment> \<open>The fallback of \<^verbatim>\<open>_auto_determine_focus_area\<close>; the edges returned by
      \<^verbatim>\<open>np.histogram2d\<close> are the ones passed in.\<close>
  "histogram_focus_area lats lons =
     (let lat_range = Max (set lats) - Min (set lats);
          lon_range = Max (set lons) - Min (set lons);
          lat_edges = linspace (Min (set lats)) (Max (set lats)) 20;
          lon_edges = linspace (Min (set lons)) (Max (set lons)) 20;
          peak_idx = peak_index lats lons;
          window_size = (3::int);
          lat_start = nat (max 0 (int (fst peak_idx) - window_size div 2));
          lat_end = nat (min (int (length lat_edges) - 1)
                           (int (fst peak_idx) + window_size div 2 + 1));
          lon_start = nat (max 0 (int (snd peak_idx) - window_size div 2));
          lon_end = nat (min (int (length lon_edges) - 1)
                           (int (snd peak_idx) + window_size div 2 + 1));
          padding = min lat_range lon_range * (2 / 100)
      in (lat_edges ! lat_start - padding, lon_edges ! lon_start - padding,
          lat_edges ! lat_end + padding, lon_edges ! lon_end + padding))"

definition auto_determine_focus_area ::
  "libs \<Rightarrow> business_row list \<Rightarrow> error + real \<times> real \<times> real \<times> real" where
  "auto_determine_focus_area lib businesses_df =
     (let lats = map row_lat businesses_df; lons = map row_lon businesses_df
      in if length businesses_df < 10 then
           (if businesses_df = [] then Inl (KeyError ''lat'')
            else Inr (Min (set lats), Min (set lons), Max (set lats), Max (set lons)))
         else
           let coords = zip lats lons;
               lat_range = Max (set lats) - Min (set lats);
               lon_range = Max (set lons) - Min (set lons);
               epsilon = min lat_range lon_range * (1 / 100)
           in and_then (dbscan lib epsilon 10 coords) (\<lambda>labels.
                let clustered = filter (\<lambda>l. 0 \<le> l) labels;
                    unique_labels = sort (remdups clustered);
                    counts = map (count_list clustered) unique_labels
                in if length unique_labels > 0 then
                     let largest_cluster_label = unique_labels ! argmax counts;
                         cluster_coords =
                           map fst (filter (\<lambda>(c, l). l = largest_cluster_label)
                                      (zip coords labels));
                         padding = min lat_range lon_range * (2 / 100)
                     in Inr (Min (set (map fst cluster_coords)) - padding,
                             Min (set (map snd cluster_coords)) - padding,
                             Max (set (map fst cluster_coords)) + padding,
                             Max (set (map snd cluster_coords)) + padding)
                   else Inr (histogram_focus_area lats lons)))"

definition load_business_data ::
  "libs \<Rightarrow> AnalysisConfig \<Rightarrow> business_data \<Rightarrow> error + business_row list" where
  "load_business_data lib config data =
     and_then (load_rows config (case data_businesses data of None \<Rightarrow> [] | Some bs \<Rightarrow> bs))
       (\<lambda>temp_df.
          case focus_area config of
            Some focus \<Rightarrow> apply_focus_area temp_df focus
          | None \<Rightarrow>
              if auto_focus config then
                and_then (auto_determine_focus_area lib temp_df) (apply_focus_area temp_df)
              else Inr temp_df)"

subsection \<open>Density grid and high-density nodes\<close>

record density_field =
  density_grid :: "real list list"
  lat_grid :: "real list list"
  lon_grid :: "real list list"

definition arange :: "real \<Rightarrow> real \<Rightarrow> real \<Rightarrow> real list" where
  \<comment> \<open>\<^verbatim>\<open>np.arange(start, stop, step)\<close> for a positive step\<close>
  "arange start stop step =
     map (\<lambda>i. start + real i * step) [0..<nat \<lceil>(stop - start) / step\<rceil>]"

fun chunks :: "nat \<Rightarrow> 'a list \<Rightarrow> nat \<Rightarrow> 'a list list" where
  \<comment> \<open>\<open>chunks n xs k\<close>: the first \<open>k\<close> rows of length \<open>n\<close> of a flat array\<close>
  "chunks n xs 0 = []"
| "chunks n xs (Suc k) = take n xs # chunks n (drop n xs) k"

definition calculate_density_grid ::
  "libs \<Rightarrow> AnalysisConfig \<Rightarrow> business_row list \<Rightarrow> error + density_field" where
  \<comment> \<open>The grid size is positive in every configuration the command line builds; with a
      grid size of zero or below NumPy raises or builds an empty grid that the estimator
      rejects, which the model reports as a library error.\<close>
  "calculate_density_grid lib config businesses_df =
     (let lats = map row_lat businesses_df; lons = map row_lon businesses_df;
          padding = max (5 / 1000) ((Max (set lats) - Min (set lats)) * (1 / 10));
          min_lat = Min (set lats) - padding; max_lat = Max (set lats) + padding;
          min_lon = Min (set lons) - padding; max_lon = Max (set lons) + padding
      in if grid_size config \<le> 0 then Inl (LibraryError ''grid'')
         else
           let lat_range = arange min_lat max_lat (grid_size config);
               lon_range = arange min_lon max_lon (grid_size config);
               lon_g = map (\<lambda>la. lon_range) lat_range;
               lat_g = map (\<lambda>la. map (\<lambda>lo. la) lon_range) lat_range;
               grid_coords = zip (concat lat_g) (concat lon_g);
               business_coords = zip lats lons
           in and_then (kde_density lib (bandwidth config) business_coords grid_coords)
                (\<lambda>density.
                   Inr \<lparr>density_grid = chunks (length lon_range) density (length lat_range),
                        lat_grid = lat_g, lon_grid = lon_g\<rparr>))"

definition percentile :: "real list \<Rightarrow> real \<Rightarrow> error + real" where
  \<comment> \<open>\<^verbatim>\<open>np.percentile(a, q)\<close> with linear interpolation between the two nearest ranks.
      On an empty array NumPy fails in a way that depends on its version.\<close>
  "percentile a q =
     (if q < 0 \<or> 100 < q then Inl (ValueError ''Percentiles must be in the range [0, 100]'')
      else if a = [] then Inl IndexError
      else
        let s = sort a; n = length a;
            virtual_index = q / 100 * real (n - 1);
            previous = nat \<lfloor>virtual_index\<rfloor>;
            next = min (previous + 1) (n - 1);
            gamma = virtual_index - real previous
        in Inr (s ! previous + (s ! next - s ! previous) * gamma))"

definition mask_select :: "real list list \<Rightarrow> real list list \<Rightarrow> real \<Rightarrow> real list" where
  \<comment> \<open>\<^verbatim>\<open>grid[density_grid >= threshold]\<close>: the selected nodes in row-major order\<close>
  "mask_select grid density threshold =
     map fst (filter (\<lambda>(v, d). threshold \<le> d) (zip (concat grid) (concat density)))"

definition high_density_points :: "density_field \<Rightarrow> real \<Rightarrow> real list \<times> real list" where
  "high_density_points field threshold =
     (mask_select (lat_grid field) (density_grid field) threshold,
      mask_select (lon_grid field) (density_grid field) threshold)"

definition identify_high_density_areas ::
  "AnalysisConfig \<Rightarrow> density_field \<Rightarrow> error + real list \<times> real list" where
  "identify_high_density_areas config field =
     and_then (percentile (concat (density_grid field)) (density_threshold_percentile config))
       (\<lambda>threshold.
          let high = high_density_points field threshold
          in if length (fst high) < 3 then
               and_then (percentile (concat (density_grid field))
                           (max 70 (density_threshold_percentile config - 20)))
                 (\<lambda>threshold. Inr (high_density_points field threshold))
             else Inr high)"

subsection \<open>Boundary\<close>

definition take_points :: "(real \<times> real) list \<Rightarrow> nat list \<Rightarrow> error + (real \<times> real) list" where
  \<comment> \<open>\<^verbatim>\<open>coords[indices]\<close>\<close>
  "take_points coords indices =
     (if list_all (\<lambda>i. i < length coords) indices then Inr (map ((!) coords) indices)
      else Inl IndexError)"

definition edge_lengths :: "(real \<times> real) list \<Rightarrow> real list" where
  "edge_lengths triangle_coords =
     map (\<lambda>i. euclidean (triangle_coords ! i) (triangle_coords ! ((i + 1) mod 3))) [0, 1, 2]"

fun alpha_triangles ::
  "real \<Rightarrow> (real \<times> real) list \<Rightarrow> (nat \<times> nat \<times> nat) list \<Rightarrow> error + (real \<times> real) list list" where
  \<comment> \<open>The loop over \<^verbatim>\<open>tri.simplices\<close>\<close>
  "alpha_triangles a coords [] = Inr []"
| "alpha_triangles a coords ((i, j, k) # simplices) =
     and_then (take_points coords [i, j, k]) (\<lambda>triangle_coords.
     and_then (alpha_triangles a coords simplices) (\<lambda>triangles.
       Inr (if Max (set (edge_lengths triangle_coords)) < a
            then triangle_coords # triangles else triangles)))"

definition alpha_shape :: "libs \<Rightarrow> AnalysisConfig \<Rightarrow> (real \<times> real) list \<Rightarrow> error + geometry" where
  \<comment> \<open>The \<^verbatim>\<open>try\<close> block of \<^verbatim>\<open>_create_downtown_boundary\<close>\<close>
  "alpha_shape lib config coords =
     and_then (delaunay lib coords) (\<lambda>simplices.
     and_then (alpha_triangles (alpha config) coords simplices) (\<lambda>triangles.
       if triangles \<noteq> [] then Inr (UnaryUnion (map Polygon triangles))
       else Inl (ValueError ''No triangles passed alpha test'')))"

definition convex_hull_boundary :: "libs \<Rightarrow> (real \<times> real) list \<Rightarrow> error + geometry" where
  \<comment> \<open>The \<^verbatim>\<open>except\<close> block\<close>
  "convex_hull_boundary lib coords =
     and_then (convex_hull lib coords) (\<lambda>vertices.
     and_then (take_points coords vertices) (\<lambda>hull_points. Inr (Polygon hull_points)))"

definition apply_buffer :: "AnalysisConfig \<Rightarrow> geometry \<Rightarrow> geometry" where
  "apply_buffer config boundary =
     (if buffer_distance config > 0 then Buffer boundary (buffer_distance config)
      else boundary)"

definition create_downtown_boundary ::
  "libs \<Rightarrow> AnalysisConfig \<Rightarrow> real list \<Rightarrow> real list \<Rightarrow> error + geometry" where
  \<comment> \<open>The two arrays have one entry per selected node; a point is \<open>(lon, lat)\<close>.\<close>
  "create_downtown_boundary lib config high_density_lats high_density_lons =
     (let coords = zip high_density_lons high_density_lats
      in and_then (case alpha_shape lib config coords of
                     Inr boundary \<Rightarrow> Inr boundary
                   | Inl e \<Rightarrow> convex_hull_boundary lib coords)
           (\<lambda>boundary. Inr (apply_buffer config boundary)))"

subsection \<open>Results and the pipeline\<close>

record AnalysisResult =
  result_city :: string
  result_total_businesses :: nat
  result_downtown_businesses :: nat
  downtown_area_km2 :: real
  business_density_per_km2 :: real
  result_boundary :: geometry
  result_businesses_df :: "business_row list"
  result_downtown_businesses_df :: "business_row list"
  result_density_field :: density_field

definition get_businesses_in_downtown ::
  "libs \<Rightarrow> business_row list \<Rightarrow> geometry \<Rightarrow> business_row list" where
  "get_businesses_in_downtown lib df boundary =
     filter (\<lambda>row. geom_contains lib boundary (row_lon row, row_lat row)) df"

definition generate_results ::
  "libs \<Rightarrow> string \<Rightarrow> business_row list \<Rightarrow> geometry \<Rightarrow> density_field \<Rightarrow> AnalysisResult" where
  \<comment> \<open>Called with at least three businesses, so the mean latitude is defined.\<close>
  "generate_results lib city_name df boundary field =
     (let downtown_businesses = get_businesses_in_downtown lib df boundary;
          lat_avg = mean (map row_lat df);
          km_per_deg_lat = 111;
          km_per_deg_lon = 111 * cos (lat_avg * pi / 180);
          area_km2 = geom_area lib boundary * km_per_deg_lat * km_per_deg_lon
      in \<lparr>result_city = city_name,
          result_total_businesses = length df,
          result_downtown_businesses = length downtown_businesses,
          downtown_area_km2 = py_round area_km2 2,
          business_density_per_km2 =
            (if area_km2 > 0 then py_round (real (length downtown_businesses) / area_km2) 1
             else 0),
          result_boundary = boundary,
          result_businesses_df = df,
          result_downtown_businesses_df = downtown_businesses,
          result_density_field = field\<rparr>)"

definition extract_city_name :: "business_data \<Rightarrow> string" where
  "extract_city_name data = (case data_city data of None \<Rightarrow> ''Unknown City'' | Some c \<Rightarrow> c)"

definition analyze ::
  "libs \<Rightarrow> AnalysisConfig \<Rightarrow> business_data \<Rightarrow> string option \<Rightarrow> error + AnalysisResult" where
  \<comment> \<open>The data is the dictionary already read; opening a file is outside the model.\<close>
  "analyze lib config data city_name =
     (let city = (case city_name of
                    Some c \<Rightarrow> if c \<noteq> [] then c else extract_city_name data
                  | None \<Rightarrow> extract_city_name data)
      in and_then (load_business_data lib config data) (\<lambda>df.
           if length df < 3 then
             Inl (ValueError (''Insufficient business data: '' @ str_nat (length df)
                                @ '' businesses found''))
           else
             and_then (calculate_density_grid lib config df) (\<lambda>field.
             and_then (identify_high_density_areas config field) (\<lambda>high.
             and_then (create_downtown_boundary lib config (fst high) (snd high)) (\<lambda>boundary.
               Inr (generate_results lib city df boundary field))))))"

subsection \<open>Predicates and concrete inputs for the analyzer\<close>

text \<open>
  Two predicates used to state properties of the loading loop (they are not functions of
  the source): a record passes both \<^verbatim>\<open>continue\<close> guards of the loop, and the first
  key that the appended dictionary reads and the record lacks.
\<close>

definition passes_guards :: "AnalysisConfig \<Rightarrow> business \<Rightarrow> bool" where
  "passes_guards config b =
     (coordinate (b_lat b) \<noteq> None \<and> coordinate (b_lon b) \<noteq> None
      \<and> (\<not> commercial_only config \<or> is_commercial_business b))"

definition first_missing_key :: "business \<Rightarrow> string option" where
  "first_missing_key b =
     (if b_id b = Missing then Some ''id''
      else if b_name b = Missing then Some ''name''
      else if b_business_type b = Missing then Some ''business_type''
      else if b_business_subtype b = Missing then Some ''business_subtype''
      else None)"

definition valid_coordinates :: "real \<Rightarrow> real \<Rightarrow> bool" where
  \<comment> \<open>The range check of \<^verbatim>\<open>DataValidator._validate_business_record\<close>\<close>
  "valid_coordinates la lo = (- 90 \<le> la \<and> la \<le> 90 \<and> - 180 \<le> lo \<and> lo \<le> 180)"

text \<open>Libraries that fail on every call, for inputs that never reach them.\<close>

definition failing_libs :: libs where
  "failing_libs =
     \<lparr>dbscan = (\<lambda>eps m coords. Inl (LibraryError ''DBSCAN'')),
      kde_density = (\<lambda>h pts nodes. Inl (LibraryError ''KernelDensity'')),
      delaunay = (\<lambda>coords. Inl (LibraryError ''QhullError'')),
      convex_hull = (\<lambda>coords. Inl (LibraryError ''QhullError'')),
      geom_contains = (\<lambda>g p. False),
      geom_area = (\<lambda>g. 0)\<rparr>"

definition restaurant :: business where
  "restaurant =
     \<lparr>b_id = Val 1, b_lat = Val (4005 / 100), b_lon = Val (- 7395 / 100), b_name = Val ''Test'',
      b_business_type = Val ''amenity'', b_business_subtype = Val ''restaurant''\<rparr>"

definition insufficient_data :: business_data where
  \<comment> \<open>The input of \<^verbatim>\<open>test_analyze_insufficient_data\<close>\<close>
  "insufficient_data = \<lparr>data_city = Some ''Test City'', data_businesses = Some [restaurant]\<rparr>"

definition nameless_shop :: business where
  "nameless_shop =
     \<lparr>b_id = Val 2, b_lat = Val (40051 / 1000), b_lon = Val (- 73951 / 1000), b_name = Missing,
      b_business_type = Val ''shop'', b_business_subtype = Val ''clothing''\<rparr>"

definition equator_cafe :: business where
  "equator_cafe =
     \<lparr>b_id = Val 3, b_lat = Val 0, b_lon = Val (3235 / 100), b_name = Val ''Equator Cafe'',
      b_business_type = Val ''amenity'', b_business_subtype = Val ''cafe''\<rparr>"

definition test_density_field :: density_field where
  \<comment> \<open>The grid of \<^verbatim>\<open>test_identify_high_density_areas\<close>\<close>
  "test_density_field =
     \<lparr>density_grid = [[1, 2], [3, 4]],
      lat_grid = [[40, 40], [401 / 10, 401 / 10]],
      lon_grid = [[- 74, - 739 / 10], [- 74, - 739 / 10]]\<rparr>"

text \<open>
  A triangulation is well formed when every index of every triangle is an index of a
  point, as SciPy guarantees.
\<close>

definition valid_simplices :: "nat \<Rightarrow> (nat \<times> nat \<times> nat) list \<Rightarrow> bool" where
  "valid_simplices n simplices = list_all (\<lambda>(i, j, k). i < n \<and> j < n \<and> k < n) simplices"

definition triangle_of :: "(real \<times> real) list \<Rightarrow> nat \<times> nat \<times> nat \<Rightarrow> (real \<times> real) list" where
  "triangle_of coords s = (case s of (i, j, k) \<Rightarrow> [coords ! i, coords ! j, coords ! k])"

text \<open>
  Three points that form a right triangle with sides 3, 4 and 5, a triangulation
  library that returns this one triangle, and a configuration whose \<open>alpha\<close> is 5.
\<close>

definition right_triangle_libs :: libs where
  "right_triangle_libs =
     \<lparr>dbscan = (\<lambda>eps m coords. Inl (LibraryError ''DBSCAN'')),
      kde_density = (\<lambda>h pts nodes. Inl (LibraryError ''KernelDensity'')),
      delaunay = (\<lambda>coords. Inr [(0, 1, 2)]),
      convex_hull = (\<lambda>coords. Inr [0, 1, 2]),
      geom_contains = (\<lambda>g p. False),
      geom_area = (\<lambda>g. 0)\<rparr>"

definition alpha5_config :: AnalysisConfig where
  "alpha5_config = default_AnalysisConfig\<lparr>alpha := 5\<rparr>"

definition alpha6_config :: AnalysisConfig where
  "alpha6_config = default_AnalysisConfig\<lparr>alpha := 6\<rparr>"

text \<open>
  Ten businesses, nine at one place and one far away. No point has ten neighbours, so
  the clustering labels every point as noise (label -1), as the library below does.
\<close>

definition noise_libs :: libs where
  "noise_libs =
     \<lparr>dbscan = (\<lambda>eps m coords. Inr (map (\<lambda>c. - 1) coords)),
      kde_density = (\<lambda>h pts nodes. Inl (LibraryError ''KernelDensity'')),
      delaunay = (\<lambda>coords. Inl (LibraryError ''QhullError'')),
      convex_hull = (\<lambda>coords. Inl (LibraryError ''QhullError'')),
      geom_contains = (\<lambda>g p. False),
      geom_area = (\<lambda>g. 0)\<rparr>"

definition shop_at :: "real \<Rightarrow> real \<Rightarrow> business_row" where
  "shop_at la lo =
     \<lparr>row_id = Some 1, row_lat = la, row_lon = lo, row_name = Some ''Shop'',
      row_type = Some ''shop'', row_subtype = Some ''clothing''\<rparr>"

definition corner_businesses :: "business_row list" where
  "corner_businesses = replicate 9 (shop_at 1 1) @ [shop_at 20 20]"

section \<open>Properties of the scorer\<close>

lemma round_half_even_bounds:
  assumes "0 \<le> x" and "x \<le> of_int n"
  shows "0 \<le> round_half_even x \<and> round_half_even x \<le> n"
proof -
  have f0: "0 \<le> \<lfloor>x\<rfloor>" using assms(1) by simp
  have fn: "\<lfloor>x\<rfloor> \<le> n" using assms(2) by (simp add: floor_le_iff)
  have up: "\<lfloor>x\<rfloor> + 1 \<le> n" if "0 < x - of_int \<lfloor>x\<rfloor>"
  proof -
    have "of_int \<lfloor>x\<rfloor> < (of_int n :: real)" using that assms(2) by linarith
    then have "\<lfloor>x\<rfloor> < n" by simp
    then show ?thesis by simp
  qed
  show ?thesis
    unfolding round_half_even_def Let_def using f0 fn up by auto
qed

lemma py_round_unit:
  assumes "0 \<le> x" and "x \<le> 1"
  shows "0 \<le> py_round x n \<and> py_round x n \<le> 1"
proof -
  have "0 \<le> x * 10 ^ n" using assms(1) by simp
  moreover have "x * 10 ^ n \<le> of_int (10 ^ n)"
    using assms(2) by (simp add: mult_left_le_one_le)
  ultimately have "0 \<le> round_half_even (x * 10 ^ n)"
    and "round_half_even (x * 10 ^ n) \<le> 10 ^ n"
    using round_half_even_bounds by blast+
  then have "0 \<le> (of_int (round_half_even (x * 10 ^ n)) :: real)"
    and "(of_int (round_half_even (x * 10 ^ n)) :: real) \<le> of_int (10 ^ n)"
    by (simp_all only: of_int_0_le_iff of_int_le_iff)
  then show ?thesis unfolding py_round_def by (simp add: divide_le_eq)
qed

lemma py_round_zero: "py_round 0 n = 0"
  by (simp add: py_round_def round_half_even_def)

lemma euclidean_nonneg: "0 \<le> euclidean p q"
  by (simp add: euclidean_def)

lemma mean_nonneg:
  assumes "\<And>x. x \<in> set xs \<Longrightarrow> 0 \<le> x"
  shows "0 \<le> mean xs"
  unfolding mean_def using assms by (simp add: sum_list_nonneg)

lemma min_distances_nonneg:
  assumes "bs \<noteq> []" and "d \<in> set (min_distances ls bs)"
  shows "0 \<le> d"
proof -
  have "d \<in> (\<lambda>l. Min (euclidean (lat l, lon l) ` set bs)) ` set ls"
    using assms(2) by (simp add: min_distances_def)
  then obtain l :: listing where d: "d = Min (euclidean (lat l, lon l) ` set bs)"
    by (rule imageE)
  have "Min (euclidean (lat l, lon l) ` set bs) \<in> euclidean (lat l, lon l) ` set bs"
    using assms(1) by (intro Min_in) simp_all
  then show ?thesis unfolding d by (auto simp: euclidean_nonneg)
qed

lemma mxi_unit:
  assumes "0 \<le> max_distance_threshold config"
  shows "0 \<le> calculate_mxi_score config ls bs \<and> calculate_mxi_score config ls bs \<le> 1"
proof (cases "bs = [] \<or> ls = [] \<or> max_distance_threshold config = 0")
  case True
  then show ?thesis by (auto simp: calculate_mxi_score_def Let_def)
next
  case False
  then have thr: "0 < max_distance_threshold config" using assms by simp
  have "0 \<le> mean (min_distances ls bs)"
    using False by (intro mean_nonneg min_distances_nonneg) auto
  then have "0 \<le> mean (min_distances ls bs) / max_distance_threshold config"
    using thr by simp
  then show ?thesis using False by (simp add: calculate_mxi_score_def Let_def)
qed

lemma balance_unit:
  assumes "calculate_balance_score config ls bs = Inr b"
  shows "0 \<le> b \<and> b \<le> 1"
  using assms
  by (auto simp: calculate_balance_score_def Let_def split: if_splits)

lemma balance_returns:
  assumes "optimal_residential_ratio config \<noteq> 0 \<or> bs = []"
  shows "\<exists>b. calculate_balance_score config ls bs = Inr b"
  using assms by (auto simp: calculate_balance_score_def Let_def)

lemma density_unit:
  assumes "0 \<le> urban_density_benchmark config"
  shows "0 \<le> calculate_density_score config ls bd \<and> calculate_density_score config ls bd \<le> 1"
proof -
  have "0 \<le> real (length ls) / a / urban_density_benchmark config" if "0 < a" for a
    using that assms by simp
  then show ?thesis
    by (auto simp: calculate_density_score_def Let_def not_le)
qed

lemma count_list_pos: "v \<in> set xs \<Longrightarrow> 0 < count_list xs v"
  by (induction xs) auto

lemma plogp_nonpos:
  fixes p :: real
  assumes "0 < p" and "p \<le> 1"
  shows "p * ln p \<le> 0"
proof -
  have "ln p \<le> 0" using assms by (simp add: ln_le_zero_iff)
  then show ?thesis using assms(1) by (simp add: mult_le_0_iff)
qed

lemma sum_list_nonpos_real:
  fixes xs :: "real list"
  assumes "\<And>x. x \<in> set xs \<Longrightarrow> x \<le> 0"
  shows "sum_list xs \<le> 0"
  using assms by (induction xs) (auto intro: add_nonpos_nonpos)

lemma shannon_index_nonneg:
  assumes "xs \<noteq> []"
  shows "0 \<le> shannon_index (length xs) (value_counts xs)"
proof -
  have "sum_list (map (\<lambda>p. p * ln p)
          (map (\<lambda>(v, c). real c / real (length xs)) (value_counts xs))) \<le> 0"
  proof (rule sum_list_nonpos_real)
    fix x
    assume "x \<in> set (map (\<lambda>p. p * ln p)
          (map (\<lambda>(v, c). real c / real (length xs)) (value_counts xs)))"
    then obtain v where v: "v \<in> set xs"
      and x: "x = (real (count_list xs v) / real (length xs))
                  * ln (real (count_list xs v) / real (length xs))"
      by (auto simp: value_counts_def)
    have "0 < count_list xs v" using v by (rule count_list_pos)
    moreover have "count_list xs v \<le> length xs" by (rule count_le_length)
    moreover have "0 < length xs" using assms by simp
    ultimately have "0 < real (count_list xs v) / real (length xs)"
      and "real (count_list xs v) / real (length xs) \<le> 1"
      by simp_all
    then show "x \<le> 0" unfolding x by (rule plogp_nonpos)
  qed
  then show ?thesis by (simp add: shannon_index_def)
qed

lemma diversity_unit:
  "0 \<le> calculate_diversity_score ls \<and> calculate_diversity_score ls \<le> 1"
proof (cases "length (value_counts (map bedrooms ls)) \<le> 1")
  case True
  then show ?thesis by (simp add: calculate_diversity_score_def)
next
  case False
  then have "map bedrooms ls \<noteq> []" by (auto simp: value_counts_def)
  from shannon_index_nonneg[OF this]
  have "0 \<le> shannon_index (length ls) (value_counts (map bedrooms ls))" by simp
  moreover have "0 < ln (5::real)" by simp
  ultimately have "0 \<le> shannon_index (length ls) (value_counts (map bedrooms ls)) / ln 5"
    by simp
  then show ?thesis using False by (simp add: calculate_diversity_score_def Let_def)
qed

section \<open>Claims about the scorer\<close>

lemma fixture_filter:
  "filter_downtown_listings fixture_listings fixture_boundary = Inr (df_rows fixture_listings)"
  by (simp add: filter_downtown_listings_def fixture_listings_def fixture_boundary_def
      required_cols_def)

lemma fixture_outside_filter:
  "filter_downtown_listings fixture_outside_listings fixture_boundary = Inr []"
  by (simp add: filter_downtown_listings_def fixture_outside_listings_def fixture_boundary_def
      required_cols_def)

text \<open>
  Claim C1. Whenever at least one listing lies inside the boundary, the scorer returns a
  result, and each of the four component scores it reports (MXI, balance, density,
  diversity) lies in the closed interval from 0 to 1. The configuration is a valid one:
  the distance threshold and the density benchmark are not negative and the optimal
  ratio is not zero, as in the default configuration. The business set is arbitrary.
\<close>

theorem component_scores_unit_interval:
  assumes "filter_downtown_listings listings_data downtown_boundary = Inr downtown_listings"
    and "downtown_listings \<noteq> []"
    and "0 \<le> max_distance_threshold config"
    and "optimal_residential_ratio config \<noteq> 0"
    and "0 \<le> urban_density_benchmark config"
  shows "\<exists>r. calculate_dmur config listings_data downtown_boundary business_locations city_name
               = Inr r
           \<and> 0 \<le> mxi_score (component_scores r) \<and> mxi_score (component_scores r) \<le> 1
           \<and> 0 \<le> balance_score (component_scores r) \<and> balance_score (component_scores r) \<le> 1
           \<and> 0 \<le> density_score (component_scores r) \<and> density_score (component_scores r) \<le> 1
           \<and> 0 \<le> diversity_score (component_scores r)
           \<and> diversity_score (component_scores r) \<le> 1"
proof -
  obtain b where b: "calculate_balance_score config downtown_listings business_locations = Inr b"
    using balance_returns[of config business_locations downtown_listings] assms(4) by blast
  have m: "0 \<le> py_round (calculate_mxi_score config downtown_listings business_locations) 3
         \<and> py_round (calculate_mxi_score config downtown_listings business_locations) 3 \<le> 1"
    using mxi_unit[OF assms(3)] py_round_unit by blast
  have bb: "0 \<le> py_round b 3 \<and> py_round b 3 \<le> 1"
    using balance_unit[OF b] py_round_unit by blast
  have d: "0 \<le> py_round (calculate_density_score config downtown_listings downtown_boundary) 3
         \<and> py_round (calculate_density_score config downtown_listings downtown_boundary) 3 \<le> 1"
    using density_unit[OF assms(5)] py_round_unit by blast
  have v: "0 \<le> py_round (calculate_diversity_score downtown_listings) 3
         \<and> py_round (calculate_diversity_score downtown_listings) 3 \<le> 1"
    using diversity_unit py_round_unit by blast
  show ?thesis
    using assms(1,2) b m bb d v
    by (simp add: calculate_dmur_def load_listings_data_def Let_def)
qed

theorem component_scores_unit_interval_witness:
  "\<exists>r. calculate_dmur default_DMURConfig fixture_listings fixture_boundary fixture_businesses
          ''Test City'' = Inr r
     \<and> 0 \<le> mxi_score (component_scores r) \<and> mxi_score (component_scores r) \<le> 1
     \<and> 0 \<le> balance_score (component_scores r) \<and> balance_score (component_scores r) \<le> 1
     \<and> 0 \<le> density_score (component_scores r) \<and> density_score (component_scores r) \<le> 1
     \<and> 0 \<le> diversity_score (component_scores r)
     \<and> diversity_score (component_scores r) \<le> 1"
proof -
  have ne: "df_rows fixture_listings \<noteq> []" by (simp add: fixture_listings_def)
  show ?thesis
    by (rule component_scores_unit_interval[OF fixture_filter ne])
       (simp_all add: default_DMURConfig_def)
qed

text \<open>
  Claim C3. If the frame has the required columns and no listing lies inside the
  boundary, the scorer raises nothing: it returns the empty result, whose DMUR score and
  four component scores are all 0.
\<close>

theorem no_downtown_listings_all_zero:
  assumes "set required_cols \<subseteq> set (df_columns listings_data)"
    and "\<forall>row \<in> set (df_rows listings_data). \<not> contains downtown_boundary (lon row, lat row)"
  shows "\<exists>r. calculate_dmur config listings_data downtown_boundary business_locations city_name
               = Inr r
           \<and> r = empty_results config city_name
           \<and> dmur_score r = 0
           \<and> mxi_score (component_scores r) = 0 \<and> balance_score (component_scores r) = 0
           \<and> density_score (component_scores r) = 0
           \<and> diversity_score (component_scores r) = 0"
proof -
  have "filter (\<lambda>col. col \<notin> set (df_columns listings_data)) required_cols = []"
    using assms(1) by (auto simp: filter_empty_conv)
  moreover have "filter (\<lambda>row. contains downtown_boundary (lon row, lat row))
                   (df_rows listings_data) = []"
    using assms(2) by (auto simp: filter_empty_conv)
  ultimately have "filter_downtown_listings listings_data downtown_boundary = Inr []"
    by (simp add: filter_downtown_listings_def)
  then show ?thesis
    by (simp add: calculate_dmur_def load_listings_data_def empty_results_def)
qed

theorem no_downtown_listings_all_zero_witness:
  "\<exists>r. calculate_dmur default_DMURConfig fixture_outside_listings fixture_boundary
          fixture_businesses ''Test City'' = Inr r
     \<and> r = empty_results default_DMURConfig ''Test City''
     \<and> dmur_score r = 0
     \<and> mxi_score (component_scores r) = 0 \<and> balance_score (component_scores r) = 0
     \<and> density_score (component_scores r) = 0
     \<and> diversity_score (component_scores r) = 0"
proof -
  have c: "set required_cols \<subseteq> set (df_columns fixture_outside_listings)"
    by (simp add: fixture_outside_listings_def required_cols_def)
  have o: "\<forall>row \<in> set (df_rows fixture_outside_listings).
             \<not> contains fixture_boundary (lon row, lat row)"
    by (simp add: fixture_outside_listings_def fixture_boundary_def)
  show ?thesis by (rule no_downtown_listings_all_zero[OF c o])
qed

lemma remdups_constant:
  assumes "xs \<noteq> []" and "\<forall>x \<in> set xs. x = k"
  shows "remdups xs = [k]"
  using assms
proof (induction xs)
  case Nil
  then show ?case by simp
next
  case (Cons x xs)
  have xk: "x = k" using Cons.prems(2) by simp
  show ?case
  proof (cases "xs = []")
    case True
    then show ?thesis using xk by simp
  next
    case False
    have r: "remdups xs = [k]" using Cons.IH[OF False] Cons.prems(2) by simp
    have "set xs = {k}" using False Cons.prems(2) by (cases xs) auto
    then have "x \<in> set xs" using xk by simp
    then show ?thesis using r by simp
  qed
qed

lemma count_list_constant:
  assumes "\<forall>x \<in> set xs. x = k"
  shows "count_list xs k = length xs"
  using assms by (induction xs) auto

text \<open>
  Claim C4. For a non-empty list of listings that all have the same bedroom count, the
  table of bedroom counts has the single entry of that count, so the guard
  \<^verbatim>\<open>len(bedroom_counts) <= 1\<close> holds and the diversity score is the constant 0 of
  that branch; the entropy formula is not evaluated.
\<close>

theorem single_bedroom_count_diversity_zero:
  assumes "listings \<noteq> []"
    and "\<forall>l \<in> set listings. bedrooms l = k"
  shows "value_counts (map bedrooms listings) = [(k, length listings)]
       \<and> length (value_counts (map bedrooms listings)) \<le> 1
       \<and> calculate_diversity_score listings = 0"
proof -
  have ne: "map bedrooms listings \<noteq> []" using assms(1) by simp
  have all: "\<forall>x \<in> set (map bedrooms listings). x = k" using assms(2) by auto
  have r: "remdups (map bedrooms listings) = [k]"
    by (rule remdups_constant[OF ne all])
  have c: "count_list (map bedrooms listings) k = length listings"
    using count_list_constant[OF all] by simp
  have vc: "value_counts (map bedrooms listings) = [(k, length listings)]"
    by (simp add: value_counts_def r c)
  then show ?thesis by (simp add: calculate_diversity_score_def)
qed

theorem single_bedroom_count_diversity_zero_witness:
  "value_counts (map bedrooms
      [\<lparr>lat = 0, lon = 0, bedrooms = 1, area_sqm = 50, price = 2000\<rparr>,
       \<lparr>lat = 0, lon = 0, bedrooms = 1, area_sqm = 60, price = 2500\<rparr>,
       \<lparr>lat = 0, lon = 0, bedrooms = 1, area_sqm = 70, price = 3000\<rparr>]) = [(1, 3)]
   \<and> calculate_diversity_score
      [\<lparr>lat = 0, lon = 0, bedrooms = 1, area_sqm = 50, price = 2000\<rparr>,
       \<lparr>lat = 0, lon = 0, bedrooms = 1, area_sqm = 60, price = 2500\<rparr>,
       \<lparr>lat = 0, lon = 0, bedrooms = 1, area_sqm = 70, price = 3000\<rparr>] = 0"
  using single_bedroom_count_diversity_zero[of
      "[\<lparr>lat = 0, lon = 0, bedrooms = 1, area_sqm = 50, price = 2000\<rparr>,
       \<lparr>lat = 0, lon = 0, bedrooms = 1, area_sqm = 60, price = 2500\<rparr>,
       \<lparr>lat = 0, lon = 0, bedrooms = 1, area_sqm = 70, price = 3000\<rparr>]" 1]
  by simp

text \<open>
  Claim C5. With at least one listing inside the boundary and an empty business set, the
  MXI score and the balance score are exactly 0, the scorer returns a result (it raises
  nothing, for any configuration), and the result reports both scores as 0.
\<close>

theorem empty_business_set_zero_scores:
  assumes "filter_downtown_listings listings_data downtown_boundary = Inr downtown_listings"
    and "downtown_listings \<noteq> []"
  shows "calculate_mxi_score config downtown_listings [] = 0
       \<and> calculate_balance_score config downtown_listings [] = Inr 0
       \<and> (\<exists>r. calculate_dmur config listings_data downtown_boundary [] city_name = Inr r
              \<and> balance_score (component_scores r) = 0
              \<and> mxi_score (component_scores r) = 0)"
  using assms
  by (simp add: calculate_dmur_def load_listings_data_def calculate_mxi_score_def
      calculate_balance_score_def Let_def py_round_zero)

theorem empty_business_set_zero_scores_witness:
  "calculate_mxi_score default_DMURConfig (df_rows fixture_listings) [] = 0
   \<and> calculate_balance_score default_DMURConfig (df_rows fixture_listings) [] = Inr 0
   \<and> (\<exists>r. calculate_dmur default_DMURConfig fixture_listings fixture_boundary [] ''Test City''
              = Inr r
          \<and> balance_score (component_scores r) = 0
          \<and> mxi_score (component_scores r) = 0)"
proof -
  have ne: "df_rows fixture_listings \<noteq> []" by (simp add: fixture_listings_def)
  show ?thesis by (rule empty_business_set_zero_scores[OF fixture_filter ne])
qed

section \<open>Claims about loading the business data\<close>

lemma and_then_Inl [simp]: "and_then (Inl e) f = Inl e"
  by (simp add: and_then_def)

lemma and_then_Inr [simp]: "and_then (Inr x) f = f x"
  by (simp add: and_then_def)

lemma load_restaurant:
  "load_business_data failing_libs default_AnalysisConfig insufficient_data
     = Inr [\<lparr>row_id = Some 1, row_lat = 4005 / 100, row_lon = - 7395 / 100,
             row_name = Some ''Test'', row_type = Some ''amenity'',
             row_subtype = Some ''restaurant''\<rparr>]"
  by (simp add: load_business_data_def insufficient_data_def restaurant_def
      default_AnalysisConfig_def is_commercial_business_def get_default_def is_in_def
      COMMERCIAL_TYPES_def COMMERCIAL_AMENITIES_def make_row_def subscript_def
      auto_determine_focus_area_def apply_focus_area_def Let_def)

text \<open>
  Claim C2, as stated, fails: on the input of the test suite, where one business
  remains after the filters, the analysis raises the built-in \<^verbatim>\<open>ValueError\<close>, the
  class of which is not an \<^verbatim>\<open>InsufficientDataError\<close>.
\<close>

theorem insufficient_data_counterexample:
  "analyze failing_libs default_AnalysisConfig insufficient_data None
     = Inl (ValueError ''Insufficient business data: 1 businesses found'')
   \<and> exception_class (ValueError ''Insufficient business data: 1 businesses found'')
       \<noteq> ''InsufficientDataError''"
  by (simp add: analyze_def load_restaurant str_nat.simps exception_class_def)

text \<open>
  Claim C2, amended. If loading succeeds and fewer than 3 businesses remain after the
  commercial and focus-area filters, the analysis raises \<^verbatim>\<open>ValueError\<close> with the
  message "Insufficient business data: N businesses found", N being the number that
  remain.
\<close>

theorem insufficient_data_raises_ValueError:
  assumes "load_business_data lib config data = Inr df"
    and "length df < 3"
  shows "analyze lib config data city_name
           = Inl (ValueError (''Insufficient business data: '' @ str_nat (length df)
                                @ '' businesses found''))"
  using assms by (simp add: analyze_def Let_def)

theorem insufficient_data_raises_ValueError_witness:
  "analyze failing_libs default_AnalysisConfig insufficient_data (Some ''Test City'')
     = Inl (ValueError ''Insufficient business data: 1 businesses found'')"
  using insufficient_data_raises_ValueError[OF load_restaurant, of "Some ''Test City''"]
  by (simp add: str_nat.simps)

lemma make_row_missing:
  assumes "first_missing_key b = Some k"
  shows "make_row b la lo = Inl (KeyError k)"
  using assms
  by (cases "b_id b"; cases "b_name b"; cases "b_business_type b"; cases "b_business_subtype b")
     (simp_all add: first_missing_key_def make_row_def subscript_def)

lemma make_row_complete:
  assumes "first_missing_key b = None"
  shows "\<exists>row. make_row b la lo = Inr row"
  using assms
  by (cases "b_id b"; cases "b_name b"; cases "b_business_type b"; cases "b_business_subtype b")
     (simp_all add: first_missing_key_def make_row_def subscript_def)

lemma load_rows_skip:
  assumes "\<not> passes_guards config b"
  shows "load_rows config (b # bs) = load_rows config bs"
  using assms by (auto simp: passes_guards_def split: option.splits)

lemma load_rows_keep:
  assumes "passes_guards config b"
  shows "\<exists>la lo. load_rows config (b # bs)
           = and_then (make_row b la lo) (\<lambda>row.
               and_then (load_rows config bs) (\<lambda>rows. Inr (row # rows)))"
  using assms by (auto simp: passes_guards_def split: option.splits)

text \<open>
  Claim C9, amended. When a record passes both guards of the loading loop (truthy
  coordinates, and the commercial filter if it is enabled) and lacks one of the keys
  \<^verbatim>\<open>id\<close>, \<^verbatim>\<open>name\<close>, \<^verbatim>\<open>business_type\<close>, \<^verbatim>\<open>business_subtype\<close>, and no such record
  precedes it, loading raises \<^verbatim>\<open>KeyError\<close> for the first key the record lacks.
\<close>

theorem missing_field_raises_KeyError:
  assumes "list_all (\<lambda>x. \<not> passes_guards config x \<or> first_missing_key x = None) before"
    and "passes_guards config b"
    and "first_missing_key b = Some k"
  shows "load_rows config (before @ b # after) = Inl (KeyError k)
       \<and> load_business_data lib config
           \<lparr>data_city = c, data_businesses = Some (before @ b # after)\<rparr> = Inl (KeyError k)"
proof -
  have rows: "load_rows config (before @ b # after) = Inl (KeyError k)"
    using assms(1)
  proof (induction before)
    case Nil
    from load_rows_keep[OF assms(2)] obtain la lo where
      "load_rows config (b # after)
         = and_then (make_row b la lo) (\<lambda>row.
             and_then (load_rows config after) (\<lambda>rows. Inr (row # rows)))"
      by blast
    then show ?case by (simp add: make_row_missing[OF assms(3)])
  next
    case (Cons x xs)
    then have IH: "load_rows config (xs @ b # after) = Inl (KeyError k)" by simp
    show ?case
    proof (cases "passes_guards config x")
      case False
      then show ?thesis using IH by (simp add: load_rows_skip del: load_rows.simps)
    next
      case True
      then have "first_missing_key x = None" using Cons.prems by simp
      then obtain row where row: "\<And>la lo. \<exists>row. make_row x la lo = Inr row"
        using make_row_complete by blast
      from load_rows_keep[OF True, of "xs @ b # after"] obtain la lo where
        eq: "load_rows config (x # xs @ b # after)
           = and_then (make_row x la lo) (\<lambda>row.
               and_then (load_rows config (xs @ b # after)) (\<lambda>rows. Inr (row # rows)))"
        by blast
      from row obtain r where "make_row x la lo = Inr r" by blast
      then show ?thesis using eq IH by simp
    qed
  qed
  then show ?thesis by (simp add: load_business_data_def)
qed

text \<open>
  Claim C9, as stated, fails: a shop record without the key \<^verbatim>\<open>name\<close> makes loading
  raise \<^verbatim>\<open>KeyError\<close>, the exception the claim excludes.
\<close>

theorem missing_name_counterexample:
  "load_business_data failing_libs default_AnalysisConfig
     \<lparr>data_city = Some ''Test City'', data_businesses = Some [restaurant, nameless_shop]\<rparr>
     = Inl (KeyError ''name'')
   \<and> exception_class (KeyError ''name'') = ''KeyError''"
  by (simp add: load_business_data_def restaurant_def nameless_shop_def
      default_AnalysisConfig_def is_commercial_business_def get_default_def is_in_def
      COMMERCIAL_TYPES_def COMMERCIAL_AMENITIES_def make_row_def subscript_def
      exception_class_def Let_def)

theorem missing_field_raises_KeyError_witness:
  "load_rows default_AnalysisConfig ([restaurant] @ nameless_shop # [restaurant])
     = Inl (KeyError ''name'')
   \<and> load_business_data failing_libs default_AnalysisConfig
       \<lparr>data_city = Some ''Test City'',
        data_businesses = Some ([restaurant] @ nameless_shop # [restaurant])\<rparr>
     = Inl (KeyError ''name'')"
proof -
  have a: "list_all (\<lambda>x. \<not> passes_guards default_AnalysisConfig x \<or> first_missing_key x = None)
             [restaurant]"
    by (simp add: first_missing_key_def restaurant_def)
  have b: "passes_guards default_AnalysisConfig nameless_shop"
    by (simp add: passes_guards_def nameless_shop_def default_AnalysisConfig_def
        is_commercial_business_def get_default_def is_in_def COMMERCIAL_TYPES_def)
  have c: "first_missing_key nameless_shop = Some ''name''"
    by (simp add: first_missing_key_def nameless_shop_def)
  show ?thesis by (rule missing_field_raises_KeyError[OF a b c])
qed

lemma coordinate_None_iff: "coordinate f = None \<longleftrightarrow> f = Missing \<or> f = Null \<or> f = Val 0"
  by (cases f) auto

text \<open>
  Claim C10. A record whose latitude or longitude is absent, \<^verbatim>\<open>None\<close> or equal to 0 is
  excluded silently: the rows loaded, the loaded frame and the whole analysis are the
  same as for the input without the record, whatever the other fields of the record are.
\<close>

theorem zero_coordinate_record_excluded:
  assumes "b_lat b = Missing \<or> b_lat b = Null \<or> b_lat b = Val 0
         \<or> b_lon b = Missing \<or> b_lon b = Null \<or> b_lon b = Val 0"
  shows "load_rows config (before @ b # after) = load_rows config (before @ after)
       \<and> load_business_data lib config (data\<lparr>data_businesses := Some (before @ b # after)\<rparr>)
           = load_business_data lib config (data\<lparr>data_businesses := Some (before @ after)\<rparr>)
       \<and> analyze lib config (data\<lparr>data_businesses := Some (before @ b # after)\<rparr>) city_name
           = analyze lib config (data\<lparr>data_businesses := Some (before @ after)\<rparr>) city_name"
proof -
  have "coordinate (b_lat b) = None \<or> coordinate (b_lon b) = None"
    using assms by (auto simp: coordinate_None_iff)
  then have "\<not> passes_guards config b" by (auto simp: passes_guards_def)
  then have skip: "load_rows config (b # after) = load_rows config after"
    by (rule load_rows_skip)
  have rows: "load_rows config (before @ b # after) = load_rows config (before @ after)"
  proof (induction before)
    case Nil
    then show ?case using skip by simp
  next
    case (Cons x xs)
    then show ?case by (auto split: option.splits)
  qed
  then have load: "load_business_data lib config (data\<lparr>data_businesses := Some (before @ b # after)\<rparr>)
           = load_business_data lib config (data\<lparr>data_businesses := Some (before @ after)\<rparr>)"
    by (simp add: load_business_data_def)
  have city: "\<And>x. extract_city_name (data\<lparr>data_businesses := x\<rparr>) = extract_city_name data"
    by (simp add: extract_city_name_def)
  have an: "analyze lib config (data\<lparr>data_businesses := Some (before @ b # after)\<rparr>) city_name
           = analyze lib config (data\<lparr>data_businesses := Some (before @ after)\<rparr>) city_name"
    unfolding analyze_def load city ..
  show ?thesis using rows load an by blast
qed

theorem zero_coordinate_record_excluded_witness:
  "valid_coordinates 0 (3235 / 100)
   \<and> load_rows default_AnalysisConfig ([restaurant] @ equator_cafe # [restaurant])
       = load_rows default_AnalysisConfig ([restaurant] @ [restaurant])
   \<and> load_business_data failing_libs default_AnalysisConfig
        (insufficient_data\<lparr>data_businesses := Some ([restaurant] @ equator_cafe # [restaurant])\<rparr>)
       = load_business_data failing_libs default_AnalysisConfig
        (insufficient_data\<lparr>data_businesses := Some ([restaurant] @ [restaurant])\<rparr>)
   \<and> analyze failing_libs default_AnalysisConfig
        (insufficient_data\<lparr>data_businesses := Some ([restaurant] @ equator_cafe # [restaurant])\<rparr>)
        None
       = analyze failing_libs default_AnalysisConfig
        (insufficient_data\<lparr>data_businesses := Some ([restaurant] @ [restaurant])\<rparr>) None"
proof -
  have z: "b_lat equator_cafe = Missing \<or> b_lat equator_cafe = Null \<or> b_lat equator_cafe = Val 0
         \<or> b_lon equator_cafe = Missing \<or> b_lon equator_cafe = Null
         \<or> b_lon equator_cafe = Val 0"
    by (simp add: equator_cafe_def)
  have v: "valid_coordinates 0 (3235 / 100)" by (simp add: valid_coordinates_def)
  show ?thesis
    using zero_coordinate_record_excluded[OF z, of default_AnalysisConfig "[restaurant]"
        "[restaurant]" failing_libs insufficient_data None] v
    by blast
qed

section \<open>Claims about the density threshold\<close>

lemma length_filter_mono:
  assumes "\<And>x. P x \<Longrightarrow> Q x"
  shows "length (filter P xs) \<le> length (filter Q xs)"
  using assms by (induction xs) auto

lemma interpolation_mono:
  fixes s :: "real list"
  assumes srt: "sorted s" and ne: "s \<noteq> []"
    and v1: "0 \<le> v1" and v12: "v1 \<le> v2" and v2: "v2 \<le> real (length s - 1)"
  shows "s ! nat \<lfloor>v1\<rfloor> + (s ! min (nat \<lfloor>v1\<rfloor> + 1) (length s - 1) - s ! nat \<lfloor>v1\<rfloor>)
             * (v1 - real (nat \<lfloor>v1\<rfloor>))
       \<le> s ! nat \<lfloor>v2\<rfloor> + (s ! min (nat \<lfloor>v2\<rfloor> + 1) (length s - 1) - s ! nat \<lfloor>v2\<rfloor>)
             * (v2 - real (nat \<lfloor>v2\<rfloor>))"
proof -
  define n where "n = length s"
  define i1 where "i1 = nat \<lfloor>v1\<rfloor>"
  define i2 where "i2 = nat \<lfloor>v2\<rfloor>"
  define j1 where "j1 = min (i1 + 1) (n - 1)"
  define j2 where "j2 = min (i2 + 1) (n - 1)"
  define g1 where "g1 = v1 - real i1"
  define g2 where "g2 = v2 - real i2"
  have n: "0 < n" using ne by (simp add: n_def)
  have r1: "real i1 = of_int \<lfloor>v1\<rfloor>" using v1 by (simp add: i1_def)
  have r2: "real i2 = of_int \<lfloor>v2\<rfloor>" using v1 v12 by (simp add: i2_def)
  have i12: "i1 \<le> i2" unfolding i1_def i2_def using v12 by (simp add: nat_mono floor_mono)
  have "\<lfloor>v2\<rfloor> \<le> int (n - 1)" using v2 unfolding n_def by (simp add: floor_le_iff)
  then have i2n: "i2 \<le> n - 1" unfolding i2_def by simp
  have g1: "0 \<le> g1" "g1 \<le> 1" unfolding g1_def r1 by linarith+
  have g2: "0 \<le> g2" "g2 \<le> 1" unfolding g2_def r2 by linarith+
  have mono: "s ! a \<le> s ! b" if "a \<le> b" "b \<le> n - 1" for a b
  proof -
    have "b < length s" using that(2) n unfolding n_def by linarith
    then show ?thesis using srt that(1) by (intro sorted_nth_mono)
  qed
  have j1n: "j1 \<le> n - 1" and ij1: "i1 \<le> j1" unfolding j1_def using i12 i2n by simp_all
  have j2n: "j2 \<le> n - 1" and ij2: "i2 \<le> j2" unfolding j2_def using i2n by simp_all
  have d1: "0 \<le> s ! j1 - s ! i1" using mono[OF ij1 j1n] by simp
  have d2: "0 \<le> s ! j2 - s ! i2" using mono[OF ij2 j2n] by simp
  have goal: "s ! i1 + (s ! j1 - s ! i1) * g1 \<le> s ! i2 + (s ! j2 - s ! i2) * g2"
  proof (cases "i1 = i2")
    case True
    then have j: "j1 = j2" by (simp add: j1_def j2_def)
    have "g1 \<le> g2" unfolding g1_def g2_def using True v12 by simp
    then have "(s ! j2 - s ! i2) * g1 \<le> (s ! j2 - s ! i2) * g2"
      using d2 by (rule mult_left_mono)
    then show ?thesis using True j by simp
  next
    case False
    then have lt: "i1 < i2" using i12 by simp
    then have j1i2: "j1 \<le> i2" by (simp add: j1_def)
    have "(s ! j1 - s ! i1) * g1 \<le> (s ! j1 - s ! i1) * 1"
      using g1(2) d1 by (rule mult_left_mono)
    then have "s ! i1 + (s ! j1 - s ! i1) * g1 \<le> s ! j1" by simp
    also have "s ! j1 \<le> s ! i2" by (rule mono[OF j1i2 i2n])
    also have "s ! i2 \<le> s ! i2 + (s ! j2 - s ! i2) * g2"
      using d2 g2(1) by simp
    finally show ?thesis .
  qed
  then show ?thesis
    unfolding i1_def i2_def j1_def j2_def g1_def g2_def n_def .
qed

lemma percentile_mono:
  assumes "a \<noteq> []" and "0 \<le> p1" and "p1 \<le> p2" and "p2 \<le> 100"
  shows "\<exists>t1 t2. percentile a p1 = Inr t1 \<and> percentile a p2 = Inr t2 \<and> t1 \<le> t2"
proof -
  have len: "length (sort a) = length a" by simp
  have s: "sorted (sort a)" "sort a \<noteq> []"
    using assms(1) len by (simp, metis length_0_conv)
  have a: "0 \<le> p1 / 100 * real (length a - 1)" using assms(2) by simp
  have b: "p1 / 100 * real (length a - 1) \<le> p2 / 100 * real (length a - 1)"
    using assms(3) by (simp add: mult_right_mono)
  have "p2 / 100 \<le> 1" using assms(4) by simp
  then have "p2 / 100 * real (length a - 1) \<le> 1 * real (length a - 1)"
    by (rule mult_right_mono) simp
  then have c: "p2 / 100 * real (length a - 1) \<le> real (length (sort a) - 1)"
    unfolding len by simp
  show ?thesis
    using interpolation_mono[OF s(1) s(2) a b c] assms
    by (simp add: percentile_def Let_def)
qed

text \<open>
  Claim C8. For a non-empty density grid and two percentiles \<open>p1 \<le> p2\<close> between 0 and
  100, both thresholds exist, the threshold of \<open>p1\<close> is at most the threshold of
  \<open>p2\<close>, and at least as many grid nodes have a density at or above the threshold of
  \<open>p1\<close> as at or above the threshold of \<open>p2\<close>; the same holds for the latitudes and
  longitudes that the analyzer selects.
\<close>

theorem percentile_relaxation_monotone:
  assumes "concat (density_grid field) \<noteq> []"
    and "0 \<le> p1" and "p1 \<le> p2" and "p2 \<le> 100"
  shows "\<exists>t1 t2. percentile (concat (density_grid field)) p1 = Inr t1
           \<and> percentile (concat (density_grid field)) p2 = Inr t2
           \<and> t1 \<le> t2
           \<and> length (filter (\<lambda>d. t2 \<le> d) (concat (density_grid field)))
               \<le> length (filter (\<lambda>d. t1 \<le> d) (concat (density_grid field)))
           \<and> length (fst (high_density_points field t2))
               \<le> length (fst (high_density_points field t1))
           \<and> length (snd (high_density_points field t2))
               \<le> length (snd (high_density_points field t1))"
proof -
  from percentile_mono[OF assms] obtain t1 t2 where
    t: "percentile (concat (density_grid field)) p1 = Inr t1"
       "percentile (concat (density_grid field)) p2 = Inr t2" "t1 \<le> t2"
    by blast
  have sel: "length (mask_select g (density_grid field) t2)
               \<le> length (mask_select g (density_grid field) t1)" for g
    unfolding mask_select_def length_map
    by (rule length_filter_mono) (use t(3) in auto)
  have cnt: "length (filter (\<lambda>d. t2 \<le> d) (concat (density_grid field)))
               \<le> length (filter (\<lambda>d. t1 \<le> d) (concat (density_grid field)))"
    by (rule length_filter_mono) (use t(3) in auto)
  show ?thesis using t cnt sel by (auto simp: high_density_points_def)
qed

theorem percentile_relaxation_monotone_witness:
  "\<exists>t1 t2. percentile (concat (density_grid test_density_field)) 70 = Inr t1
           \<and> percentile (concat (density_grid test_density_field)) 90 = Inr t2
           \<and> t1 \<le> t2
           \<and> length (filter (\<lambda>d. t2 \<le> d) (concat (density_grid test_density_field)))
               \<le> length (filter (\<lambda>d. t1 \<le> d) (concat (density_grid test_density_field)))
           \<and> length (fst (high_density_points test_density_field t2))
               \<le> length (fst (high_density_points test_density_field t1))
           \<and> length (snd (high_density_points test_density_field t2))
               \<le> length (snd (high_density_points test_density_field t1))"
  by (rule percentile_relaxation_monotone) (simp_all add: test_density_field_def)

section \<open>Claims about the boundary\<close>

lemma take_points_valid:
  assumes "list_all (\<lambda>i. i < length coords) indices"
  shows "take_points coords indices = Inr (map ((!) coords) indices)"
  using assms by (simp add: take_points_def)

lemma alpha_triangles_valid:
  assumes "valid_simplices (length coords) simplices"
  shows "alpha_triangles a coords simplices
           = Inr (filter (\<lambda>t. Max (set (edge_lengths t)) < a)
                    (map (triangle_of coords) simplices))"
  using assms
proof (induction simplices)
  case Nil
  then show ?case by simp
next
  case (Cons s ss)
  obtain i j k where s: "s = (i, j, k)" by (cases s) auto
  from Cons.prems have v: "i < length coords" "j < length coords" "k < length coords"
    and vs: "valid_simplices (length coords) ss"
    by (simp_all add: valid_simplices_def s)
  show ?case
    using Cons.IH[OF vs] v
    by (simp add: s take_points_def triangle_of_def)
qed

lemma longest_edge_less_iff:
  "Max (set (edge_lengths [p, q, r])) < a
     \<longleftrightarrow> euclidean p q < a \<and> euclidean q r < a \<and> euclidean r p < a"
  by (auto simp: edge_lengths_def)

text \<open>
  Claim C6, amended. Boundary creation triangulates the selected points, keeps exactly
  the triangles whose longest edge is strictly shorter than \<open>alpha\<close> (a triangle whose
  longest edge equals \<open>alpha\<close> is discarded) and unions the kept triangles into the
  boundary. It falls back to the convex hull of the selected points exactly when no
  triangle is kept, which includes the case that the triangulation itself fails. The
  buffer is then applied to either shape.
\<close>

theorem alpha_shape_boundary:
  assumes "case delaunay lib (zip lons lats) of
             Inl e \<Rightarrow> True
           | Inr simplices \<Rightarrow> valid_simplices (length (zip lons lats)) simplices"
  shows "create_downtown_boundary lib config lats lons
           = (let coords = zip lons lats;
                  kept = (case delaunay lib coords of
                            Inl e \<Rightarrow> []
                          | Inr simplices \<Rightarrow>
                              filter (\<lambda>t. Max (set (edge_lengths t)) < alpha config)
                                (map (triangle_of coords) simplices))
              in if kept \<noteq> [] then Inr (apply_buffer config (UnaryUnion (map Polygon kept)))
                 else and_then (convex_hull_boundary lib coords)
                        (\<lambda>b. Inr (apply_buffer config b)))"
proof (cases "delaunay lib (zip lons lats)")
  case (Inl e)
  then show ?thesis
    by (simp add: create_downtown_boundary_def alpha_shape_def Let_def)
next
  case (Inr simplices)
  then have "valid_simplices (length (zip lons lats)) simplices" using assms by simp
  then show ?thesis
    using Inr
    by (simp add: create_downtown_boundary_def alpha_shape_def alpha_triangles_valid Let_def)
qed

lemma right_triangle_edges:
  "edge_lengths [(0, 0), (3, 0), (0, 4)] = [3, 5, 4]"
  by (simp add: edge_lengths_def euclidean_def)

text \<open>
  Claim C6, as stated, fails: with \<open>alpha = 5\<close> and a single triangle whose longest
  edge is exactly 5, the triangle is discarded and the boundary is the convex hull, not
  the union that contains the triangle.
\<close>

theorem longest_edge_equal_alpha_counterexample:
  "Max (set (edge_lengths [(0, 0), (3, 0), (0, 4)])) = alpha alpha5_config
   \<and> create_downtown_boundary right_triangle_libs alpha5_config [0, 0, 4] [0, 3, 0]
       = Inr (Buffer (Polygon [(0, 0), (3, 0), (0, 4)]) (3 / 1000))
   \<and> create_downtown_boundary right_triangle_libs alpha5_config [0, 0, 4] [0, 3, 0]
       \<noteq> Inr (Buffer (UnaryUnion [Polygon [(0, 0), (3, 0), (0, 4)]]) (3 / 1000))"
  by (simp add: right_triangle_edges create_downtown_boundary_def alpha_shape_def
      convex_hull_boundary_def take_points_def right_triangle_libs_def alpha5_config_def
      default_AnalysisConfig_def apply_buffer_def)

theorem alpha_shape_boundary_witness:
  "create_downtown_boundary right_triangle_libs alpha6_config [0, 0, 4] [0, 3, 0]
     = Inr (Buffer (UnaryUnion [Polygon [(0, 0), (3, 0), (0, 4)]]) (3 / 1000))"
proof -
  have v: "case delaunay right_triangle_libs (zip [0, 3, 0] [0, 0, 4]) of
             Inl e \<Rightarrow> True
           | Inr simplices \<Rightarrow> valid_simplices (length (zip [0, 3, 0 :: real] [0, 0, 4 :: real]))
                                simplices"
    by (simp add: right_triangle_libs_def valid_simplices_def)
  have d: "delaunay right_triangle_libs coords = Inr [(0, 1, 2)]" for coords
    by (simp add: right_triangle_libs_def)
  show ?thesis
    using alpha_shape_boundary[OF v, of alpha6_config]
    by (simp add: d triangle_of_def right_triangle_edges alpha6_config_def
        default_AnalysisConfig_def apply_buffer_def Let_def)
qed

section \<open>Claims about the automatic focus area\<close>

lemma length_linspace: "length (linspace a b n) = n"
  by (simp add: linspace_def)

lemma nth_linspace:
  assumes "i < n"
  shows "linspace a b n ! i = a + real i * ((b - a) / real (n - 1))"
  using assms by (simp add: linspace_def)

lemma length_concat_uniform:
  assumes "\<And>i. length (f i) = n"
  shows "length (concat (map f [0..<m])) = m * n"
  using assms by (induction m) simp_all

lemma nth_concat_uniform:
  assumes len: "\<And>i. length (f i) = n" and k: "k < m * n"
  shows "concat (map f [0..<m]) ! k = f (k div n) ! (k mod n)"
  using k
proof (induction m)
  case 0
  then show ?case by simp
next
  case (Suc m)
  have n: "0 < n" using Suc.prems by (cases n) auto
  have l: "length (concat (map f [0..<m])) = m * n"
    by (rule length_concat_uniform[OF len])
  show ?case
  proof (cases "k < m * n")
    case True
    then show ?thesis using Suc.IH l by (simp add: nth_append)
  next
    case False
    define d where "d = k - m * n"
    have kd: "k = d + m * n" using False by (simp add: d_def)
    have lt: "d < n" using Suc.prems False by (simp add: d_def)
    have dv: "k div n = m" unfolding kd using lt n by simp
    have md: "k mod n = d" unfolding kd using lt by simp
    show ?thesis using False l dv md by (simp add: nth_append d_def)
  qed
qed

lemma takeWhile_neq_less:
  assumes "m \<in> set xs"
  shows "length (takeWhile (\<lambda>x. x \<noteq> m) xs) < length xs"
  using assms by (induction xs) auto

lemma argmax_less:
  assumes "xs \<noteq> []"
  shows "argmax xs < length xs"
proof -
  have "Max (set xs) \<in> set xs" using assms by (intro Max_in) simp_all
  then show ?thesis unfolding argmax_def by (rule takeWhile_neq_less)
qed

lemma nth_argmax:
  assumes "xs \<noteq> []"
  shows "xs ! argmax xs = Max (set xs)"
  using nth_length_takeWhile[OF argmax_less[OF assms, unfolded argmax_def]]
  by (simp add: argmax_def)

lemma before_argmax:
  assumes "j < argmax xs"
  shows "xs ! j < Max (set xs)"
proof -
  let ?P = "\<lambda>x. x \<noteq> Max (set xs)"
  have j: "j < length (takeWhile ?P xs)" using assms by (simp add: argmax_def)
  then have "takeWhile ?P xs ! j \<in> set (takeWhile ?P xs)" by (rule nth_mem)
  then have "?P (takeWhile ?P xs ! j)" by (rule set_takeWhileD[THEN conjunct2])
  then have ne: "xs ! j \<noteq> Max (set xs)" using j by (simp add: takeWhile_nth)
  have "j < length xs" using j length_takeWhile_le[of ?P xs] by linarith
  then have "xs ! j \<le> Max (set xs)" by (intro Max_ge) simp_all
  then show ?thesis using ne by simp
qed

lemma histogram2d_rows:
  "histogram2d xs ys xe ye
     = map (\<lambda>i. map (\<lambda>j. count_list
                             (map (\<lambda>(x, y). (bin_index xe x, bin_index ye y)) (zip xs ys))
                             (Some i, Some j))
                  [0..<length ye - 1])
         [0..<length xe - 1]"
  by (simp add: histogram2d_def Let_def)

lemma hist_shape_histogram2d:
  assumes "1 < length xe"
  shows "hist_shape (histogram2d xs ys xe ye) = (length xe - 1, length ye - 1)"
  using assms by (simp add: hist_shape_def histogram2d_rows hd_map)

lemma peak_properties:
  defines "le \<equiv> \<lambda>xs. linspace (Min (set xs)) (Max (set xs)) 20"
  shows "hist_shape (histogram2d lats lons (le lats) (le lons)) = (19, 19)"
    and "fst (peak_index lats lons) < 19"
    and "snd (peak_index lats lons) < 19"
    and "histogram2d lats lons (le lats) (le lons)
           ! fst (peak_index lats lons) ! snd (peak_index lats lons)
         = Max (set (concat (histogram2d lats lons (le lats) (le lons))))"
    and "\<forall>j < fst (peak_index lats lons) * 19 + snd (peak_index lats lons).
           concat (histogram2d lats lons (le lats) (le lons)) ! j
             < Max (set (concat (histogram2d lats lons (le lats) (le lons))))"
proof -
  define bins where
    "bins = map (\<lambda>(x, y). (bin_index (le lats) x, bin_index (le lons) y)) (zip lats lons)"
  define f where "f = (\<lambda>i. map (\<lambda>j. count_list bins (Some i, Some j)) [0..<19])"
  define hist where "hist = histogram2d lats lons (le lats) (le lons)"
  have hist: "hist = map f [0..<19]"
    by (simp add: hist_def histogram2d_rows le_def length_linspace f_def bins_def)
  have lf: "length (f i) = 19" for i by (simp add: f_def)
  show shape: "hist_shape (histogram2d lats lons (le lats) (le lons)) = (19, 19)"
    by (simp add: hist_shape_histogram2d le_def length_linspace)
  have lc: "length (concat hist) = 19 * 19"
    unfolding hist by (rule length_concat_uniform[OF lf])
  have ne: "concat hist \<noteq> []"
  proof
    assume a: "concat hist = []"
    show False using lc unfolding a by simp
  qed
  define k where "k = argmax (concat hist)"
  have k: "k < 19 * 19" using argmax_less[OF ne] lc by (simp add: k_def)
  have p: "peak_index lats lons = (k div 19, k mod 19)"
    using shape
    by (simp add: peak_index_def Let_def unravel_index_def k_def hist_def le_def)
  have kd: "k div 19 < 19" using k by (simp add: less_mult_imp_div_less)
  show "fst (peak_index lats lons) < 19" using kd by (simp add: p)
  show "snd (peak_index lats lons) < 19" by (simp add: p)
  have "hist ! (k div 19) ! (k mod 19) = f (k div 19) ! (k mod 19)"
    using kd by (simp add: hist)
  also have "\<dots> = concat hist ! k"
    unfolding hist by (rule nth_concat_uniform[OF lf k, symmetric])
  also have "\<dots> = Max (set (concat hist))"
    unfolding k_def by (rule nth_argmax[OF ne])
  finally show "histogram2d lats lons (le lats) (le lons)
           ! fst (peak_index lats lons) ! snd (peak_index lats lons)
         = Max (set (concat (histogram2d lats lons (le lats) (le lons))))"
    by (simp add: p hist_def)
  have "k div 19 * 19 + k mod 19 = k" by simp
  then show "\<forall>j < fst (peak_index lats lons) * 19 + snd (peak_index lats lons).
           concat (histogram2d lats lons (le lats) (le lons)) ! j
             < Max (set (concat (histogram2d lats lons (le lats) (le lons))))"
    using before_argmax[of _ "concat hist"] by (simp add: p k_def hist_def)
qed

lemma histogram_focus_area_window:
  assumes "fst (peak_index lats lons) < 19" and "snd (peak_index lats lons) < 19"
  shows "histogram_focus_area lats lons
         = (let lat_min = Min (set lats); lat_range = Max (set lats) - Min (set lats);
                lon_min = Min (set lons); lon_range = Max (set lons) - Min (set lons);
                p = peak_index lats lons;
                padding = min lat_range lon_range * (2 / 100)
            in (lat_min + real (fst p - 1) * (lat_range / 19) - padding,
                lon_min + real (snd p - 1) * (lon_range / 19) - padding,
                lat_min + real (min 19 (fst p + 2)) * (lat_range / 19) + padding,
                lon_min + real (min 19 (snd p + 2)) * (lon_range / 19) + padding))"
proof -
  have s: "nat (max 0 (int i - 3 div 2)) = i - 1" for i by simp
  have e: "nat (min (int (20::nat) - 1) (int i + 3 div 2 + 1)) = min 19 (i + 2)" for i
    by (simp add: min_def nat_eq_iff)
  show ?thesis
    unfolding histogram_focus_area_def Let_def length_linspace s e
    using assms by (simp add: nth_linspace)
qed

lemma all_noise_no_cluster:
  assumes "list_all (\<lambda>l. l < (0::int)) labels"
  shows "filter (\<lambda>l. 0 \<le> l) labels = []"
  using assms by (induction labels) auto

lemma auto_focus_fallback:
  assumes "10 \<le> length df"
    and "dbscan lib (min (Max (set (map row_lat df)) - Min (set (map row_lat df)))
                         (Max (set (map row_lon df)) - Min (set (map row_lon df))) * (1 / 100))
           10 (zip (map row_lat df) (map row_lon df)) = Inr labels"
    and "list_all (\<lambda>l. l < (0::int)) labels"
  shows "auto_determine_focus_area lib df
           = Inr (histogram_focus_area (map row_lat df) (map row_lon df))"
  using assms(1,2) all_noise_no_cluster[OF assms(3)]
  by (simp add: auto_determine_focus_area_def Let_def and_then_def)

text \<open>
  Claim C7, amended. When there are at least ten businesses and the clustering labels
  every point as noise, the focus area comes from a two-dimensional histogram with 20
  edges on each axis, that is 19 by 19 bins. The peak is the first bin, in row-major
  order, with the highest count. The window runs from the lower edge of the bin before
  the peak to the upper edge of the bin after it, clipped to the histogram (so it is 3
  by 3 bins only when the peak is not on the border), and is padded on every side by 2%
  of the smaller coordinate span.
\<close>

theorem histogram_fallback_focus_area:
  assumes "10 \<le> length df"
    and "dbscan lib (min (Max (set (map row_lat df)) - Min (set (map row_lat df)))
                         (Max (set (map row_lon df)) - Min (set (map row_lon df))) * (1 / 100))
           10 (zip (map row_lat df) (map row_lon df)) = Inr labels"
    and "list_all (\<lambda>l. l < (0::int)) labels"
  shows "(let lats = map row_lat df; lons = map row_lon df;
              lat_min = Min (set lats); lat_range = Max (set lats) - Min (set lats);
              lon_min = Min (set lons); lon_range = Max (set lons) - Min (set lons);
              hist = histogram2d lats lons (linspace (Min (set lats)) (Max (set lats)) 20)
                       (linspace (Min (set lons)) (Max (set lons)) 20);
              p = peak_index lats lons;
              padding = min lat_range lon_range * (2 / 100)
          in hist_shape hist = (19, 19)
             \<and> fst p < 19 \<and> snd p < 19
             \<and> hist ! fst p ! snd p = Max (set (concat hist))
             \<and> (\<forall>j < fst p * 19 + snd p. concat hist ! j < Max (set (concat hist)))
             \<and> auto_determine_focus_area lib df
                 = Inr (lat_min + real (fst p - 1) * (lat_range / 19) - padding,
                        lon_min + real (snd p - 1) * (lon_range / 19) - padding,
                        lat_min + real (min 19 (fst p + 2)) * (lat_range / 19) + padding,
                        lon_min + real (min 19 (snd p + 2)) * (lon_range / 19) + padding))"
proof -
  note pk = peak_properties[of "map row_lat df" "map row_lon df"]
  have w: "auto_determine_focus_area lib df
             = Inr (histogram_focus_area (map row_lat df) (map row_lon df))"
    by (rule auto_focus_fallback[OF assms])
  show ?thesis
    unfolding Let_def w histogram_focus_area_window[OF pk(2) pk(3), unfolded Let_def]
    using pk by simp
qed

lemma corner_coordinates:
  "map row_lat corner_businesses = [1, 1, 1, 1, 1, 1, 1, 1, 1, 20]"
  "map row_lon corner_businesses = [1, 1, 1, 1, 1, 1, 1, 1, 1, 20]"
  by (simp_all add: corner_businesses_def shop_at_def numeral_eq_Suc)

lemma corner_peak:
  "peak_index [1, 1, 1, 1, 1, 1, 1, 1, 1, 20] [1, 1, 1, 1, 1, 1, 1, 1, 1, 20] = (0, 0)"
  by code_simp

lemma corner_labels:
  "dbscan noise_libs eps m (zip (map row_lat corner_businesses) (map row_lon corner_businesses))
     = Inr [- 1, - 1, - 1, - 1, - 1, - 1, - 1, - 1, - 1, - 1]"
  by (simp add: noise_libs_def corner_coordinates)

theorem histogram_fallback_focus_area_witness:
  "(let lats = map row_lat corner_businesses; lons = map row_lon corner_businesses;
        lat_min = Min (set lats); lat_range = Max (set lats) - Min (set lats);
        lon_min = Min (set lons); lon_range = Max (set lons) - Min (set lons);
        hist = histogram2d lats lons (linspace (Min (set lats)) (Max (set lats)) 20)
                 (linspace (Min (set lons)) (Max (set lons)) 20);
        p = peak_index lats lons;
        padding = min lat_range lon_range * (2 / 100)
    in hist_shape hist = (19, 19)
       \<and> fst p < 19 \<and> snd p < 19
       \<and> hist ! fst p ! snd p = Max (set (concat hist))
       \<and> (\<forall>j < fst p * 19 + snd p. concat hist ! j < Max (set (concat hist)))
       \<and> auto_determine_focus_area noise_libs corner_businesses
           = Inr (lat_min + real (fst p - 1) * (lat_range / 19) - padding,
                  lon_min + real (snd p - 1) * (lon_range / 19) - padding,
                  lat_min + real (min 19 (fst p + 2)) * (lat_range / 19) + padding,
                  lon_min + real (min 19 (snd p + 2)) * (lon_range / 19) + padding))"
proof -
  have n: "10 \<le> length corner_businesses" by (simp add: corner_businesses_def)
  have a: "list_all (\<lambda>l. l < (0::int)) [- 1, - 1, - 1, - 1, - 1, - 1, - 1, - 1, - 1, - 1]"
    by simp
  show ?thesis
    by (rule histogram_fallback_focus_area[OF n corner_labels a])
qed

text \<open>
  Claim C7, as stated, fails: for nine businesses at (1, 1) and one at (20, 20), all
  labelled as noise, the histogram has 19 by 19 bins, not 20 by 20; the peak is the
  corner bin, and the focus area (0.62, 0.62, 3.38, 3.38) is a window of 2 by 2 bins of
  width 1 plus the padding 0.38, which is not centred on the peak bin.
\<close>

theorem histogram_bins_counterexample:
  "hist_shape (histogram2d (map row_lat corner_businesses) (map row_lon corner_businesses)
       (linspace (Min (set (map row_lat corner_businesses)))
          (Max (set (map row_lat corner_businesses))) 20)
       (linspace (Min (set (map row_lon corner_businesses)))
          (Max (set (map row_lon corner_businesses))) 20)) = (19, 19)
   \<and> peak_index (map row_lat corner_businesses) (map row_lon corner_businesses) = (0, 0)
   \<and> auto_determine_focus_area noise_libs corner_businesses
       = Inr (62 / 100, 62 / 100, 338 / 100, 338 / 100)"
proof -
  have n: "10 \<le> length corner_businesses" by (simp add: corner_businesses_def)
  have a: "list_all (\<lambda>l. l < (0::int)) [- 1, - 1, - 1, - 1, - 1, - 1, - 1, - 1, - 1, - 1]"
    by simp
  have f: "auto_determine_focus_area noise_libs corner_businesses
             = Inr (histogram_focus_area (map row_lat corner_businesses)
                      (map row_lon corner_businesses))"
    by (rule auto_focus_fallback[OF n corner_labels a])
  have p: "peak_index (map row_lat corner_businesses) (map row_lon corner_businesses) = (0, 0)"
    unfolding corner_coordinates by (rule corner_peak)
  have w: "histogram_focus_area (map row_lat corner_businesses) (map row_lon corner_businesses)
             = (62 / 100, 62 / 100, 338 / 100, 338 / 100)"
    using histogram_focus_area_window[of "map row_lat corner_businesses"
        "map row_lon corner_businesses"]
    unfolding p by (simp add: corner_coordinates Let_def)
  show ?thesis
    using peak_properties(1)[of "map row_lat corner_businesses" "map row_lon corner_businesses"]
    by (simp add: f p w)
qed

end
